theory Spec2Isabelle
  imports Complex_Main
begin

section \<open>Arrays\<close>

text \<open>
  The classifier module works on numpy arrays. An array is modelled the way numpy stores
  it: a shape and the entries in row-major order. Entries are real numbers, the exact
  arithmetic that float64 approximates; rounding, infinities and NaN are outside the model.

  Binary operations are modelled on operands of the same shape, as the docstrings of
  \<^verbatim>\<open>Loss\<close> and \<^verbatim>\<open>Loss2\<close> prescribe (\<^verbatim>\<open>pred\<close> has the same shape as
  \<^verbatim>\<open>Y\<close>), and on the one broadcast the code writes out, \<^verbatim>\<open>v[:, np.newaxis]\<close> against
  a matrix. Theorems state the shapes they are about.
\<close>

datatype error = TypeError | ValueError | IndexError | KeyError | AttributeError

datatype ndarray = Array (shape: "nat list") (data: "real list")

definition wf :: "ndarray \<Rightarrow> bool" where
  "wf a = (length (data a) = prod_list (shape a))"

definition nrows :: "ndarray \<Rightarrow> nat" where
  "nrows a = shape a ! 0"

definition ncols :: "ndarray \<Rightarrow> nat" where
  "ncols a = shape a ! 1"

definition is_matrix :: "nat \<Rightarrow> nat \<Rightarrow> ndarray \<Rightarrow> bool" where
  "is_matrix n k a = (shape a = [n, k] \<and> length (data a) = n * k)"

definition is_vector :: "nat \<Rightarrow> ndarray \<Rightarrow> bool" where
  "is_vector n a = (shape a = [n] \<and> length (data a) = n)"

text \<open>Entrywise operations: \<^verbatim>\<open>a op b\<close> and \<^verbatim>\<open>a op= b\<close> on arrays of one shape.\<close>

definition ew :: "(real \<Rightarrow> real) \<Rightarrow> ndarray \<Rightarrow> ndarray" where
  "ew f a = Array (shape a) (map f (data a))"

definition ew2 :: "(real \<Rightarrow> real \<Rightarrow> real) \<Rightarrow> ndarray \<Rightarrow> ndarray \<Rightarrow> ndarray" where
  "ew2 f a b = Array (shape a) (map2 f (data a) (data b))"

text \<open>\<^verbatim>\<open>buf[:] = a\<close>: the buffer keeps its shape and takes the entries of \<^verbatim>\<open>a\<close>.\<close>

definition assign_all :: "ndarray \<Rightarrow> ndarray \<Rightarrow> ndarray" where
  "assign_all buf a = Array (shape buf) (data a)"

text \<open>\<^verbatim>\<open>(a > 0)\<close>: a boolean array, read as 1 and 0 when it is multiplied or stored.\<close>

definition gt0 :: "ndarray \<Rightarrow> ndarray" where
  "gt0 a = ew (\<lambda>x. if x > 0 then 1 else 0) a"

text \<open>\<^verbatim>\<open>np.dot\<close> of two vectors, and \<^verbatim>\<open>a.sum()\<close>.\<close>

definition np_dot :: "real list \<Rightarrow> real list \<Rightarrow> real" where
  "np_dot xs ys = sum_list (map2 (*) xs ys)"

definition np_sum :: "ndarray \<Rightarrow> real" where
  "np_sum a = sum_list (data a)"

text \<open>The rows of an \<open>n\<close> by \<open>k\<close> matrix stored in row-major order.\<close>

fun chunks :: "nat \<Rightarrow> nat \<Rightarrow> 'a list \<Rightarrow> 'a list list" where
  "chunks 0 k xs = []"
| "chunks (Suc n) k xs = take k xs # chunks n k (drop k xs)"

definition rows :: "ndarray \<Rightarrow> real list list" where
  "rows a = chunks (nrows a) (ncols a) (data a)"

text \<open>\<^verbatim>\<open>a.sum(axis=1)\<close> (also \<^verbatim>\<open>a.sum(1)\<close>) and \<^verbatim>\<open>a.sum(axis=0)\<close> of a matrix.\<close>

definition sum_axis1 :: "ndarray \<Rightarrow> ndarray" where
  "sum_axis1 a = Array [nrows a] (map sum_list (rows a))"

definition sum_axis0 :: "ndarray \<Rightarrow> ndarray" where
  "sum_axis0 a = Array [ncols a] (foldr (map2 (+)) (rows a) (replicate (ncols a) 0))"

text \<open>
  \<^verbatim>\<open>v[:, np.newaxis]\<close> broadcast against a matrix with \<open>k\<close> columns: entry \<open>i\<close> of the
  vector fills row \<open>i\<close>.
\<close>

definition newaxis :: "nat \<Rightarrow> ndarray \<Rightarrow> ndarray" where
  "newaxis k v = Array [length (data v), k] (concat (map (replicate k) (data v)))"

text \<open>\<^verbatim>\<open>np.dot(v, a)\<close> of a vector and a matrix: entry \<open>j\<close> is the sum of \<open>v[i] * a[i, j]\<close>.\<close>

definition np_dot_vm :: "ndarray \<Rightarrow> ndarray \<Rightarrow> ndarray" where
  "np_dot_vm v a = sum_axis0 (ew2 (*) (newaxis (ncols a) v) a)"

text \<open>
  The largest entry of a non-empty list. numpy raises ValueError when it reduces a
  zero-size axis with \<^verbatim>\<open>max\<close>; the callers below test for that before they use
  \<open>amax\<close>.
\<close>

fun amax :: "real list \<Rightarrow> real" where
  "amax [] = 0"
| "amax [x] = x"
| "amax (x # y # ys) = max x (amax (y # ys))"

definition max_axis1 :: "ndarray \<Rightarrow> error + ndarray" where
  "max_axis1 a = (if ncols a = 0 then Inl ValueError
                  else Inr (Array [nrows a] (map amax (rows a))))"

definition np_max :: "ndarray \<Rightarrow> error + real" where
  "np_max a = (if data a = [] then Inl ValueError else Inr (amax (data a)))"

section \<open>Regularizers (class Reg)\<close>

definition reg_l2 :: "ndarray \<Rightarrow> real \<times> ndarray" where
  "reg_l2 w = (np_dot (data w) (data w), ew (\<lambda>x. 2 * x) w)"

definition reg_l1 :: "ndarray \<Rightarrow> real \<times> ndarray" where
  "reg_l1 w =
     (let g = ew sgn w;
          g = ew (\<lambda>x. if x = 0 then 0.5 else x) g
      in (np_sum (ew abs w), g))"

text \<open>\<^verbatim>\<open>kwargs.get('alpha', 0.5)\<close>: the keyword argument is an optional number.\<close>

definition reg_elastic :: "real option \<Rightarrow> ndarray \<Rightarrow> real \<times> ndarray" where
  "reg_elastic alpha w =
     (let alpha1 = (case alpha of None \<Rightarrow> 0.5 | Some a \<Rightarrow> a);
          alpha2 = 1 - alpha1;
          (f1, g1) = reg_l1 w;
          (f2, g2) = reg_l2 w
      in (f1 * alpha1 + f2 * alpha2,
          ew2 (+) (ew (\<lambda>x. x * alpha1) g1) (ew (\<lambda>x. x * alpha2) g2)))"

section \<open>Allocating losses (class Loss)\<close>

text \<open>
  Every loss takes the labels \<^verbatim>\<open>Y\<close>, the predictions \<^verbatim>\<open>pred\<close> and the optional
  per-example \<^verbatim>\<open>weight\<close>, and returns the loss value and the gradient with respect to
  \<^verbatim>\<open>pred\<close>.
\<close>

type_synonym loss_result = "error + real \<times> ndarray"

definition loss_l2 :: "ndarray \<Rightarrow> ndarray \<Rightarrow> ndarray option \<Rightarrow> loss_result" where
  "loss_l2 Y pred weight =
     (let diff = ew2 (-) pred Y in
      case weight of
        None \<Rightarrow> Inr (np_dot (data diff) (data diff), ew (\<lambda>x. 2 * x) diff)
      | Some w \<Rightarrow>
          Inr (np_dot (data (sum_axis1 (ew (\<lambda>x. x ^ 2) diff))) (data w),
               ew2 (*) (ew (\<lambda>x. 2 * x) diff) (newaxis (ncols diff) w)))"

definition hinge_margin :: "ndarray \<Rightarrow> ndarray \<Rightarrow> ndarray" where
  "hinge_margin Y pred = ew (\<lambda>x. max 0 (1 - x)) (ew2 (*) Y pred)"

definition loss_hinge :: "ndarray \<Rightarrow> ndarray \<Rightarrow> ndarray option \<Rightarrow> loss_result" where
  "loss_hinge Y pred weight =
     (let margin = hinge_margin Y pred in
      case weight of
        None \<Rightarrow> Inr (np_sum margin, ew2 (*) (ew uminus Y) (gt0 margin))
      | Some w \<Rightarrow>
          Inr (np_sum (np_dot_vm w margin),
               ew2 (*) (ew2 (*) (ew uminus Y) (newaxis (ncols Y) w)) (gt0 margin)))"

definition loss_squared_hinge :: "ndarray \<Rightarrow> ndarray \<Rightarrow> ndarray option \<Rightarrow> loss_result" where
  "loss_squared_hinge Y pred weight =
     (let margin = hinge_margin Y pred in
      case weight of
        None \<Rightarrow> Inr (np_dot (data margin) (data margin),
                     ew2 (*) (ew (\<lambda>y. -2 * y) Y) margin)
      | Some w \<Rightarrow>
          (let wm = ew2 (*) (newaxis (ncols margin) w) margin
           in Inr (np_dot (data wm) (data margin), ew2 (*) (ew (\<lambda>y. -2 * y) Y) wm)))"

text \<open>
  Modelled from the spec: \<^verbatim>\<open>mathutil.exp\<close> and \<^verbatim>\<open>mathutil.log\<close> are not among the
  sources. The spec has them as the exponentiation and the logarithm of the softmax,
  applied to every entry; the entrywise functions themselves are parameters \<open>mexp\<close> and
  \<open>mlog\<close> of the losses that call them.
\<close>

definition mathutil_exp :: "(real \<Rightarrow> real) \<Rightarrow> ndarray \<Rightarrow> ndarray" where
  "mathutil_exp mexp a = ew mexp a"

definition mathutil_log :: "(real \<Rightarrow> real) \<Rightarrow> ndarray \<Rightarrow> ndarray" where
  "mathutil_log mlog a = ew mlog a"

definition loss_multiclass_logistic ::
  "(real \<Rightarrow> real) \<Rightarrow> (real \<Rightarrow> real) \<Rightarrow> ndarray \<Rightarrow> ndarray \<Rightarrow> ndarray option \<Rightarrow> loss_result" where
  "loss_multiclass_logistic mexp mlog Y pred weight =
     (case max_axis1 pred of
        Inl e \<Rightarrow> Inl e
      | Inr m \<Rightarrow>
          (let prob = ew2 (-) pred (newaxis (ncols pred) m);
               prob = mathutil_exp mexp prob;
               prob = ew2 (/) prob (newaxis (ncols prob) (sum_axis1 prob));
               g = ew2 (-) prob Y;
               prob = mathutil_log mlog prob
           in Inr (- np_dot (data prob) (data Y), g)))"

section \<open>Buffer-reusing losses (class Loss2)\<close>

text \<open>
  The losses of \<^verbatim>\<open>Loss2\<close> also take the gradient buffer \<^verbatim>\<open>gpred\<close> and the scratch
  list \<^verbatim>\<open>cache\<close>. Both are mutated in place; the model returns the loss value, the
  buffer and the cache as they are when the function returns.
\<close>

type_synonym loss2_result = "error + real \<times> ndarray \<times> ndarray list"

definition loss2_l2 ::
  "ndarray \<Rightarrow> ndarray \<Rightarrow> ndarray option \<Rightarrow> ndarray \<Rightarrow> ndarray list \<Rightarrow> loss2_result" where
  "loss2_l2 Y pred weight gpred cache =
     (case weight of
        None \<Rightarrow>
          (let gpred = assign_all gpred pred;
               gpred = ew2 (-) gpred Y;
               f = np_dot (data gpred) (data gpred);
               gpred = ew (\<lambda>x. x * 2) gpred
           in Inr (f, gpred, cache))
      | Some w \<Rightarrow>
          (let gpred = assign_all gpred pred;
               gpred = ew2 (-) gpred Y;
               gpred = ew (\<lambda>x. x ^ 2) gpred;
               f = np_dot (data (sum_axis1 gpred)) (data w);
               gpred = assign_all gpred pred;
               gpred = ew2 (-) gpred Y;
               gpred = ew2 (*) gpred (ew (\<lambda>x. 2 * x) (newaxis (ncols gpred) w))
           in Inr (f, gpred, cache)))"

text \<open>
  The first five statements of \<^verbatim>\<open>Loss2.loss_hinge\<close> and
  \<^verbatim>\<open>Loss2.loss_squared_hinge\<close>, which leave the margin in the buffer.
  \<^verbatim>\<open>np.clip(gpred, 0, np.inf, out=gpred)\<close> bounds each entry below by 0.
\<close>

definition margin_inplace :: "ndarray \<Rightarrow> ndarray \<Rightarrow> ndarray \<Rightarrow> ndarray" where
  "margin_inplace Y pred gpred =
     (let gpred = assign_all gpred pred;
          gpred = ew2 (*) gpred Y;
          gpred = ew (\<lambda>x. x * (- 1)) gpred;
          gpred = ew (\<lambda>x. x + 1) gpred;
          gpred = ew (\<lambda>x. max x 0) gpred
      in gpred)"

definition loss2_hinge ::
  "ndarray \<Rightarrow> ndarray \<Rightarrow> ndarray option \<Rightarrow> ndarray \<Rightarrow> ndarray list \<Rightarrow> loss2_result" where
  "loss2_hinge Y pred weight gpred cache =
     (let gpred = margin_inplace Y pred gpred in
      case weight of
        None \<Rightarrow>
          (let f = np_sum gpred;
               gpred = assign_all gpred (gt0 gpred);
               gpred = ew2 (*) gpred Y;
               gpred = ew (\<lambda>x. x * (- 1)) gpred
           in Inr (f, gpred, cache))
      | Some w \<Rightarrow>
          (let f = np_dot (data w) (data (sum_axis1 gpred));
               gpred = assign_all gpred (gt0 gpred);
               gpred = ew2 (*) gpred Y;
               gpred = ew2 (*) gpred (ew uminus (newaxis (ncols gpred) w))
           in Inr (f, gpred, cache)))"

text \<open>\<^verbatim>\<open>inner1d(a, a)\<close>: the sum of squares of each row.\<close>

definition inner1d :: "ndarray \<Rightarrow> ndarray \<Rightarrow> ndarray" where
  "inner1d a b = sum_axis1 (ew2 (*) a b)"

definition loss2_squared_hinge ::
  "ndarray \<Rightarrow> ndarray \<Rightarrow> ndarray option \<Rightarrow> ndarray \<Rightarrow> ndarray list \<Rightarrow> loss2_result" where
  "loss2_squared_hinge Y pred weight gpred cache =
     (let gpred = margin_inplace Y pred gpred in
      case weight of
        None \<Rightarrow>
          (let f = np_dot (data gpred) (data gpred);
               gpred = ew2 (*) gpred Y;
               gpred = ew (\<lambda>x. x * (- 2)) gpred
           in Inr (f, gpred, cache))
      | Some w \<Rightarrow>
          (let gprednorm = inner1d gpred gpred;
               f = np_dot (data gprednorm) (data w);
               gpred = ew2 (*) gpred Y;
               gpred = ew2 (*) gpred (ew (\<lambda>x. - 2 * x) (newaxis (ncols gpred) w))
           in Inr (f, gpred, cache)))"

text \<open>
  \<^verbatim>\<open>np.empty_like\<close> leaves the entries of the new array uninitialised; the model fills
  them with 0, and every caller overwrites them before it reads them.
  \<^verbatim>\<open>a.resize(shape)\<close> keeps the entries that fit and pads with zeros.
\<close>

definition np_empty :: "nat list \<Rightarrow> ndarray" where
  "np_empty sh = Array sh (replicate (prod_list sh) 0)"

definition np_resize :: "nat list \<Rightarrow> ndarray \<Rightarrow> ndarray" where
  "np_resize sh a = Array sh (take (prod_list sh) (data a @ replicate (prod_list sh) 0))"

text \<open>
  The statements that open both multiclass losses of \<^verbatim>\<open>Loss2\<close>: the scratch array
  \<^verbatim>\<open>cache[0]\<close> is created on first use and resized to the shape of \<^verbatim>\<open>pred\<close>.
\<close>

definition prepare_cache :: "ndarray \<Rightarrow> ndarray list \<Rightarrow> ndarray list" where
  "prepare_cache pred cache =
     (let cache = (if length cache = 0 then cache @ [np_empty (shape pred)] else cache)
      in cache[0 := np_resize (shape pred) (cache ! 0)])"

definition loss2_multiclass_logistic ::
  "(real \<Rightarrow> real) \<Rightarrow> (real \<Rightarrow> real) \<Rightarrow>
   ndarray \<Rightarrow> ndarray \<Rightarrow> ndarray option \<Rightarrow> ndarray \<Rightarrow> ndarray list \<Rightarrow> loss2_result" where
  "loss2_multiclass_logistic mexp mlog Y pred weight gpred cache =
     (let cache = prepare_cache pred cache;
          prob = cache ! 0;
          prob = assign_all prob pred
      in case max_axis1 pred of
           Inl e \<Rightarrow> Inl e
         | Inr m \<Rightarrow>
             (let prob = ew2 (-) prob (newaxis (ncols prob) m);
                  prob = mathutil_exp mexp prob;
                  prob = ew2 (/) prob (newaxis (ncols prob) (sum_axis1 prob));
                  gpred = assign_all gpred prob;
                  gpred = ew2 (-) gpred Y;
                  prob = mathutil_log mlog prob
              in Inr (- np_dot (data prob) (data Y), gpred, cache[0 := prob])))"

text \<open>
  Index vectors. \<^verbatim>\<open>a[np.arange(len(Y)), Y]\<close> reads or updates, for each \<open>i\<close> below
  \<^verbatim>\<open>len(Y)\<close>, the entry of row \<open>i\<close> in column \<open>Y[i]\<close>. A negative column counts from
  the end; a row or column out of range raises IndexError. \<open>fancy_positions\<close> gives the
  positions of these entries in the row-major data of an \<open>n\<close> by \<open>k\<close> matrix.
\<close>

definition py_index :: "nat \<Rightarrow> int \<Rightarrow> error + nat" where
  "py_index n i =
     (if 0 \<le> i \<and> i < int n then Inr (nat i)
      else if - int n \<le> i \<and> i < 0 then Inr (nat (int n + i))
      else Inl IndexError)"

fun fancy_positions :: "nat \<Rightarrow> nat \<Rightarrow> nat \<Rightarrow> int list \<Rightarrow> error + nat list" where
  "fancy_positions n k i [] = Inr []"
| "fancy_positions n k i (y # ys) =
     (if n \<le> i then Inl IndexError
      else case py_index k y of
             Inl e \<Rightarrow> Inl e
           | Inr j \<Rightarrow>
               (case fancy_positions n k (Suc i) ys of
                  Inl e \<Rightarrow> Inl e
                | Inr ps \<Rightarrow> Inr ((i * k + j) # ps)))"

definition loss2_multiclass_logistic_yvector ::
  "(real \<Rightarrow> real) \<Rightarrow> (real \<Rightarrow> real) \<Rightarrow>
   int list \<Rightarrow> ndarray \<Rightarrow> ndarray option \<Rightarrow> ndarray \<Rightarrow> ndarray list \<Rightarrow> loss2_result" where
  "loss2_multiclass_logistic_yvector mexp mlog Y pred weight gpred cache =
     (let cache = prepare_cache pred cache;
          prob = cache ! 0;
          prob = assign_all prob pred
      in case max_axis1 pred of
           Inl e \<Rightarrow> Inl e
         | Inr m \<Rightarrow>
             (let prob = ew2 (-) prob (newaxis (ncols prob) m);
                  prob = mathutil_exp mexp prob;
                  prob = ew2 (/) prob (newaxis (ncols prob) (sum_axis1 prob));
                  gpred = assign_all gpred prob
              in case fancy_positions (nrows gpred) (ncols gpred) 0 Y of
                   Inl e \<Rightarrow> Inl e
                 | Inr ps \<Rightarrow>
                     (let gpred = Array (shape gpred)
                                    (fold (\<lambda>p d. d[p := d ! p - 1]) ps (data gpred));
                          prob = mathutil_log mlog prob
                      in case fancy_positions (nrows prob) (ncols prob) 0 Y of
                           Inl e \<Rightarrow> Inl e
                         | Inr qs \<Rightarrow>
                             Inr (- sum_list (map (\<lambda>q. data prob ! q) qs), gpred,
                                  cache[0 := prob]))))"

section \<open>Python values and parameter flattening\<close>

text \<open>
  \<^verbatim>\<open>SolverMC.flatten_params\<close> dispatches on \<^verbatim>\<open>type(params)\<close> with the identity test
  \<^verbatim>\<open>is\<close>. The objects compared are type objects and, for \<^verbatim>\<open>np.array\<close>, a builtin
  function of numpy (the array type is \<^verbatim>\<open>np.ndarray\<close>). A value is an array, a list
  or tuple of arrays, or one of a few other kinds.
\<close>

datatype pytype = T_ndarray | T_list | T_tuple | T_NoneType | T_float | T_int | T_str

datatype pyref = TypeObject pytype | BuiltinFunction string

datatype pyobj =
    PyArray ndarray
  | PyList "ndarray list"
  | PyTuple "ndarray list"
  | PyNone
  | PyFloat real
  | PyInt int
  | PyStr string

fun py_type :: "pyobj \<Rightarrow> pyref" where
  "py_type (PyArray a) = TypeObject T_ndarray"
| "py_type (PyList ps) = TypeObject T_list"
| "py_type (PyTuple ps) = TypeObject T_tuple"
| "py_type PyNone = TypeObject T_NoneType"
| "py_type (PyFloat x) = TypeObject T_float"
| "py_type (PyInt i) = TypeObject T_int"
| "py_type (PyStr s) = TypeObject T_str"

definition np_array :: pyref where
  "np_array = BuiltinFunction ''numpy.array''"

fun elements :: "pyobj \<Rightarrow> ndarray list" where
  "elements (PyList ps) = ps"
| "elements (PyTuple ps) = ps"
| "elements p = []"

text \<open>
  \<^verbatim>\<open>p.flatten()\<close> is the one-dimensional copy of an array; \<^verbatim>\<open>np.hstack\<close> of
  one-dimensional arrays joins them end to end and raises ValueError when there is none.
\<close>

definition np_flatten :: "ndarray \<Rightarrow> ndarray" where
  "np_flatten a = Array [length (data a)] (data a)"

definition np_hstack :: "ndarray list \<Rightarrow> error + ndarray" where
  "np_hstack ps =
     (if ps = [] then Inl ValueError
      else Inr (Array [length (concat (map data ps))] (concat (map data ps))))"

definition flatten_params :: "pyobj \<Rightarrow> error + pyobj" where
  "flatten_params params =
     (if py_type params = np_array then Inr params
      else if py_type params = TypeObject T_list \<or> py_type params = TypeObject T_tuple then
        (case np_hstack (map np_flatten (elements params)) of
           Inl e \<Rightarrow> Inl e
         | Inr a \<Rightarrow> Inr (PyArray a))
      else Inl TypeError)"

section \<open>The solver (class SolverMC)\<close>

text \<open>
  A loss is a function reference; \<^verbatim>\<open>presolve\<close> tells the two kinds apart by the
  number of their arguments (five for the losses of \<^verbatim>\<open>Loss2\<close>). The keyword
  arguments \<^verbatim>\<open>_lossargs\<close> and \<^verbatim>\<open>_regargs\<close> are part of the function values.
\<close>

datatype lossfn =
    Loss3 "ndarray \<Rightarrow> ndarray \<Rightarrow> ndarray option \<Rightarrow> loss_result"
  | Loss5 "ndarray \<Rightarrow> ndarray \<Rightarrow> ndarray option \<Rightarrow> ndarray \<Rightarrow> ndarray list \<Rightarrow> loss2_result"

record solver =
  self_gamma :: real
  self_loss :: lossfn
  self_reg :: "ndarray \<Rightarrow> real \<times> ndarray"
  self_pred :: "ndarray option"
  self_glocal :: "ndarray option"
  self_g :: "ndarray option"
  self_gpred :: "ndarray option"
  self_gpredcache :: "ndarray list"
  self_iter :: nat
  self_X :: ndarray
  self_Y :: ndarray
  self_weight :: "ndarray option"
  self_K :: nat
  self_num_data :: real
  self_dim :: nat
  gpredcache :: bool

text \<open>
  \<^verbatim>\<open>a[:m]\<close> and \<^verbatim>\<open>a[m:]\<close> of a one-dimensional array, and
  \<^verbatim>\<open>a.reshape(shape)\<close>, which raises ValueError when the sizes differ.
\<close>

definition slice_to :: "nat \<Rightarrow> ndarray \<Rightarrow> ndarray" where
  "slice_to m a = Array [length (take m (data a))] (take m (data a))"

definition slice_from :: "nat \<Rightarrow> ndarray \<Rightarrow> ndarray" where
  "slice_from m a = Array [length (drop m (data a))] (drop m (data a))"

definition np_reshape :: "nat list \<Rightarrow> ndarray \<Rightarrow> error + ndarray" where
  "np_reshape sh a =
     (if prod_list sh = length (data a) then Inr (Array sh (data a)) else Inl ValueError)"

definition unflatten_params :: "solver \<Rightarrow> ndarray \<Rightarrow> error + ndarray \<times> ndarray" where
  "unflatten_params self wb =
     (let K = self_K self in
      case np_reshape [self_dim self, K] (slice_to (K * self_dim self) wb) of
        Inl e \<Rightarrow> Inl e
      | Inr w \<Rightarrow> (let b = slice_from (K * self_dim self) wb in Inr (w, b)))"

text \<open>
  Modelled from the spec: the module \<^verbatim>\<open>iceberk.mpi\<close> is not among the sources. The
  collective runtime of section 6 of the spec is a parameter of \<^verbatim>\<open>presolve\<close>: what
  the max-reduction and the sum-reduction return to this worker for the value it
  contributes, and the buffer this worker holds after the broadcast.
\<close>

record mpi_comm =
  allreduce_max :: "real \<Rightarrow> real"
  allreduce_sum :: "real \<Rightarrow> real"
  Bcast :: "real list \<Rightarrow> real list"

definition np_zeros :: "nat \<Rightarrow> ndarray" where
  "np_zeros n = Array [n] (replicate n 0)"

text \<open>
  \<^verbatim>\<open>A.reshape((A.shape[0], np.prod(A.shape[1:])))\<close>: \<^verbatim>\<open>A.shape[0]\<close> raises IndexError
  for an array without dimensions; otherwise the sizes agree and the reshape succeeds.
\<close>

definition reshape_2d :: "ndarray \<Rightarrow> error + ndarray" where
  "reshape_2d a =
     (case shape a of
        [] \<Rightarrow> Inl IndexError
      | n # rest \<Rightarrow> np_reshape [n, prod_list rest] a)"

text \<open>
  The buffers: \<^verbatim>\<open>np.empty\<close> on first use, \<^verbatim>\<open>resize\<close> afterwards.
\<close>

definition alloc :: "ndarray option \<Rightarrow> nat list \<Rightarrow> ndarray" where
  "alloc buf sh = (case buf of None \<Rightarrow> np_empty sh | Some a \<Rightarrow> np_resize sh a)"

text \<open>
  \<^verbatim>\<open>presolve\<close>. The number of classes is a Python integer: the argument \<^verbatim>\<open>K\<close>,
  or \<^verbatim>\<open>allreduce(Y.max(), op=max) + 1\<close> for a label vector (which holds class
  indices, so the sum is read as an integer), or the number of columns of the reshaped
  label matrix. A negative number of classes makes \<^verbatim>\<open>np.empty\<close>, or \<^verbatim>\<open>resize\<close>,
  raise ValueError when the prediction buffer is sized, which is the first use of
  \<^verbatim>\<open>_K\<close>; the record therefore keeps \<^verbatim>\<open>_K\<close> as a natural number.
\<close>

definition presolve ::
  "mpi_comm \<Rightarrow> solver \<Rightarrow> ndarray \<Rightarrow> ndarray \<Rightarrow> ndarray option \<Rightarrow> pyobj \<Rightarrow> int option
   \<Rightarrow> error + ndarray \<times> solver" where
  "presolve COMM self X Y weight param_init K =
     (let self = self\<lparr>self_iter := 0\<rparr> in
      case reshape_2d X of
        Inl e \<Rightarrow> Inl e
      | Inr X2 \<Rightarrow>
     (let self = self\<lparr>self_X := X2\<rparr> in
      case (case K of
              Some k \<Rightarrow> Inr (k, Y)
            | None \<Rightarrow>
                if length (shape Y) = 1 then
                  (case np_max Y of
                     Inl e \<Rightarrow> Inl e
                   | Inr m \<Rightarrow> Inr (\<lfloor>allreduce_max COMM m + 1\<rfloor>, Y))
                else
                  (case reshape_2d Y of
                     Inl e \<Rightarrow> Inl e
                   | Inr Y2 \<Rightarrow> Inr (int (shape Y2 ! 1), Y2))) of
        Inl e \<Rightarrow> Inl e
      | Inr (K, Y) \<Rightarrow>
     (let self = self\<lparr>self_Y := Y, self_weight := weight\<rparr>;
          self = (case weight of
                    None \<Rightarrow> self\<lparr>self_num_data := allreduce_sum COMM (real (shape X ! 0))\<rparr>
                  | Some w \<Rightarrow> self\<lparr>self_num_data := allreduce_sum COMM (np_sum w)\<rparr>);
          self = self\<lparr>self_dim := shape X2 ! 1\<rparr>
      in
      if K < 0 then Inl ValueError
      else
     (let k = nat K;
          self = self\<lparr>self_K := k\<rparr>;
          self = self\<lparr>self_pred := Some (alloc (self_pred self) [shape X ! 0, k])\<rparr>
      in
      case (if param_init = PyNone then Inr (np_zeros (k * (self_dim self + 1)))
            else case flatten_params param_init of
                   Inl e \<Rightarrow> Inl e
                 | Inr (PyArray a) \<Rightarrow> Inr a
                 | Inr other \<Rightarrow> Inl AttributeError) of
        Inl e \<Rightarrow> Inl e
      | Inr param_init \<Rightarrow>
     (case (case self_glocal self of
              None \<Rightarrow> Inr (self\<lparr>self_glocal := Some (np_empty (shape param_init)),
                                  self_g := Some (np_empty (shape param_init))\<rparr>)
            | Some gl \<Rightarrow>
                (case self_g self of
                   None \<Rightarrow> Inl AttributeError
                 | Some g \<Rightarrow>
                     Inr (self\<lparr>self_glocal := Some (np_resize (shape param_init) gl),
                               self_g := Some (np_resize (shape param_init) g)\<rparr>))) of
        Inl e \<Rightarrow> Inl e
      | Inr self \<Rightarrow>
     (let self = (case self_loss self of
                    Loss5 f \<Rightarrow>
                      self\<lparr>gpredcache := True,
                           self_gpred := Some (alloc (self_gpred self) [shape X ! 0, k])\<rparr>
                  | Loss3 f \<Rightarrow> self\<lparr>gpredcache := False\<rparr>);
          param_init = Array (shape param_init) (Bcast COMM (data param_init))
      in Inr (param_init, self)))))))"

section \<open>The objective (SolverMC.obj)\<close>

text \<open>
  Modelled from the spec: \<^verbatim>\<open>mathutil.dot\<close> is not among the sources. By section 4.3
  of the spec it is the matrix product (\<^verbatim>\<open>pred = X W\<close> and \<^verbatim>\<open>g_W = X' g_pred\<close>),
  written into the array given as \<^verbatim>\<open>out\<close>.
\<close>

definition np_matmul :: "ndarray \<Rightarrow> ndarray \<Rightarrow> ndarray" where
  "np_matmul a b =
     Array [nrows a, ncols b]
       (concat (map (\<lambda>i. map (\<lambda>j. \<Sum>l\<leftarrow>[0..<ncols a].
                                      data a ! (i * ncols a + l) * data b ! (l * ncols b + j))
                             [0..<ncols b])
                    [0..<nrows a]))"

definition np_transpose :: "ndarray \<Rightarrow> ndarray" where
  "np_transpose a =
     Array [ncols a, nrows a]
       (concat (map (\<lambda>j. map (\<lambda>i. data a ! (i * ncols a + j)) [0..<nrows a]) [0..<ncols a]))"

text \<open>\<^verbatim>\<open>pred += b\<close>: the vector \<open>b\<close> is added to every row of the matrix.\<close>

definition add_rowvec :: "ndarray \<Rightarrow> ndarray \<Rightarrow> ndarray" where
  "add_rowvec a b = ew2 (+) a (Array (shape a) (concat (replicate (nrows a) (data b))))"

text \<open>
  The call of the loss: with the gradient buffer and the cache when \<^verbatim>\<open>gpredcache\<close> is
  set, without them otherwise. It returns the loss value, the gradient, and the buffer and
  cache of the solver as the call leaves them.
\<close>

definition call_loss ::
  "solver \<Rightarrow> ndarray \<Rightarrow> error + real \<times> ndarray \<times> ndarray option \<times> ndarray list" where
  "call_loss solver pred =
     (if gpredcache solver then
        (case (self_loss solver, self_gpred solver) of
           (Loss5 f, Some gbuf) \<Rightarrow>
             (case f (self_Y solver) pred (self_weight solver) gbuf (self_gpredcache solver) of
                Inl e \<Rightarrow> Inl e
              | Inr (flocal, gpred, cache) \<Rightarrow> Inr (flocal, gpred, Some gpred, cache))
         | other \<Rightarrow> Inl TypeError)
      else
        (case self_loss solver of
           Loss3 f \<Rightarrow>
             (case f (self_Y solver) pred (self_weight solver) of
                Inl e \<Rightarrow> Inl e
              | Inr (flocal, gpred) \<Rightarrow>
                  Inr (flocal, gpred, self_gpred solver, self_gpredcache solver))
         | Loss5 f \<Rightarrow> Inl TypeError))"

text \<open>
  The first part of \<^verbatim>\<open>obj\<close>, up to the normalisation by the number of data: the
  predictions, the loss, the gradient with respect to the parameters. It returns the local
  value \<^verbatim>\<open>flocal\<close>, the weight matrix \<open>w\<close> and the solver with its buffers updated.
\<close>

definition obj_loss_part :: "ndarray \<Rightarrow> solver \<Rightarrow> error + real \<times> ndarray \<times> solver" where
  "obj_loss_part wb solver =
     (let K = self_K solver; dim = self_dim solver in
      case np_reshape [dim, K] (slice_to (K * dim) wb) of
        Inl e \<Rightarrow> Inl e
      | Inr w \<Rightarrow>
     (let b = slice_from (K * dim) wb;
          pred = np_matmul (self_X solver) w;
          pred = add_rowvec pred b;
          solver = solver\<lparr>self_pred := Some pred\<rparr>
      in
      case call_loss solver pred of
        Inl e \<Rightarrow> Inl e
      | Inr (flocal, gpred, gbuf, cache) \<Rightarrow>
     (case self_glocal solver of
        None \<Rightarrow> Inl TypeError
      | Some glocal \<Rightarrow>
     (let solver = solver\<lparr>self_gpred := gbuf, self_gpredcache := cache\<rparr>;
          glocal = Array (shape glocal)
                     (data (np_matmul (np_transpose (self_X solver)) gpred)
                      @ drop (K * dim) (data glocal));
          glocal = Array (shape glocal)
                     (take (K * dim) (data glocal) @ data (sum_axis0 gpred));
          flocal = flocal / self_num_data solver;
          glocal = ew (\<lambda>x. x / self_num_data solver) glocal
      in Inr (flocal, w, solver\<lparr>self_glocal := Some glocal\<rparr>)))))"

text \<open>
  The regularization branch of \<^verbatim>\<open>obj\<close>, taken when \<^verbatim>\<open>mpi.is_root()\<close> holds, and the
  local part of \<^verbatim>\<open>obj\<close> as a whole: everything before the barrier.
\<close>

definition add_reg :: "real \<Rightarrow> ndarray \<Rightarrow> solver \<Rightarrow> error + real \<times> solver" where
  "add_reg flocal w solver =
     (case self_glocal solver of
        None \<Rightarrow> Inl TypeError
      | Some glocal \<Rightarrow>
          (let K = self_K solver; dim = self_dim solver;
               (freg, greg) = self_reg solver w;
               flocal = flocal + self_gamma solver * freg;
               glocal = Array (shape glocal)
                          (map2 (+) (take (K * dim) (data glocal))
                                    (map (\<lambda>x. self_gamma solver * x) (data greg))
                           @ drop (K * dim) (data glocal))
           in Inr (flocal, solver\<lparr>self_glocal := Some glocal\<rparr>)))"

definition obj_local :: "bool \<Rightarrow> ndarray \<Rightarrow> solver \<Rightarrow> error + real \<times> solver" where
  "obj_local is_root wb solver =
     (case obj_loss_part wb solver of
        Inl e \<Rightarrow> Inl e
      | Inr (flocal, w, solver) \<Rightarrow>
          if is_root then add_reg flocal w solver else Inr (flocal, solver))"

text \<open>
  The workers of a run are the list of their solvers, in the order of their ranks.
  \<^verbatim>\<open>mpi.is_root()\<close> holds on the worker of rank 0 (\<^verbatim>\<open>testIsRoot\<close> in
  \<^verbatim>\<open>test/unittest_mpi.py\<close>). After the barrier, \<^verbatim>\<open>allreduce\<close> sums the local values
  and \<^verbatim>\<open>Allreduce\<close> sums the local gradient buffers entry by entry into the buffer
  \<^verbatim>\<open>_g\<close> of every worker; \<^verbatim>\<open>obj\<close> returns the sum and that buffer.
\<close>

definition mpi_is_root :: "nat \<Rightarrow> bool" where
  "mpi_is_root rank = (rank = 0)"

fun collect :: "(error + 'a) list \<Rightarrow> error + 'a list" where
  "collect [] = Inr []"
| "collect (r # rs) =
     (case r of
        Inl e \<Rightarrow> Inl e
      | Inr x \<Rightarrow> (case collect rs of Inl e \<Rightarrow> Inl e | Inr xs \<Rightarrow> Inr (x # xs)))"

definition Allreduce :: "real list list \<Rightarrow> real list" where
  "Allreduce bufs = (case bufs of [] \<Rightarrow> [] | b # bs \<Rightarrow> fold (\<lambda>x acc. map2 (+) acc x) bs b)"

definition glocal_data :: "solver \<Rightarrow> real list" where
  "glocal_data solver = (case self_glocal solver of None \<Rightarrow> [] | Some gl \<Rightarrow> data gl)"

definition obj :: "ndarray \<Rightarrow> solver list \<Rightarrow> error + real \<times> real list \<times> solver list" where
  "obj wb solvers =
     (case collect (map (\<lambda>(rank, solver). obj_local (mpi_is_root rank) wb solver)
                        (zip [0..<length solvers] solvers)) of
        Inl e \<Rightarrow> Inl e
      | Inr locals \<Rightarrow>
          (let f = sum_list (map fst locals);
               g = Allreduce (map (\<lambda>(flocal, solver). glocal_data solver) locals)
           in Inr (f, g,
                   map (\<lambda>(flocal, solver).
                          solver\<lparr>self_g := map_option (\<lambda>buf. Array (shape buf) g)
                                                     (self_g solver)\<rparr>) locals)))"

section \<open>The Adagrad branch of SolverStochastic.solve\<close>

text \<open>
  The branch is modelled from iteration 0 (no \<^verbatim>\<open>resume\<close>), after \<^verbatim>\<open>presolve\<close> has
  returned the flat parameter \<^verbatim>\<open>param_flat\<close> and the learning rate \<^verbatim>\<open>base_lr\<close> is
  known. The evaluation \<^verbatim>\<open>SolverMC.obj(param_flat, solver_basic)\<close> on the minibatch
  sampled in iteration \<open>iter\<close> is the parameter \<open>objf iter\<close>; it returns the value
  \<^verbatim>\<open>f0\<close> and the gradient \<open>g\<close>, or fails.
\<close>

definition float64_eps :: real where
  "float64_eps = 1 / 2 ^ 52"

text \<open>
  \<^verbatim>\<open>np.ones_like(param_flat) * (self._args.get('eta', 0.) ** 2) + np.finfo(np.float64).eps\<close>
\<close>

definition accum_grad_init :: "real option \<Rightarrow> ndarray \<Rightarrow> ndarray" where
  "accum_grad_init eta param_flat =
     ew (\<lambda>x. x + float64_eps)
        (ew (\<lambda>x. x * (case eta of None \<Rightarrow> 0 | Some e \<Rightarrow> e) ^ 2)
            (Array (shape param_flat) (replicate (length (data param_flat)) 1)))"

text \<open>
  The two updates of one iteration: \<^verbatim>\<open>accum_grad += g * g\<close> and
  \<^verbatim>\<open>param_flat -= g / np.sqrt(accum_grad) * self._args['base_lr']\<close>.
\<close>

definition adagrad_update :: "real \<Rightarrow> ndarray \<Rightarrow> ndarray \<times> ndarray \<Rightarrow> ndarray \<times> ndarray" where
  "adagrad_update base_lr g st =
     (let (param_flat, accum_grad) = st;
          accum_grad = ew2 (+) accum_grad (ew2 (*) g g);
          param_flat = ew2 (-) param_flat
                         (ew (\<lambda>x. x * base_lr) (ew2 (/) g (ew sqrt accum_grad)))
      in (param_flat, accum_grad))"

text \<open>
  The state \<open>(param_flat, accum_grad)\<close> after the iterations \<open>0, ..., n - 1\<close> of the
  loop \<^verbatim>\<open>for iter in range(iter_start, num_iter)\<close>.
\<close>

fun adagrad_iterate ::
  "(nat \<Rightarrow> ndarray \<Rightarrow> error + real \<times> ndarray) \<Rightarrow> real option \<Rightarrow> real \<Rightarrow> ndarray \<Rightarrow> nat
   \<Rightarrow> error + ndarray \<times> ndarray" where
  "adagrad_iterate objf eta base_lr param_flat 0 =
     Inr (param_flat, accum_grad_init eta param_flat)"
| "adagrad_iterate objf eta base_lr param_flat (Suc n) =
     (case adagrad_iterate objf eta base_lr param_flat n of
        Inl e \<Rightarrow> Inl e
      | Inr (p, a) \<Rightarrow>
          (case objf n p of
             Inl e \<Rightarrow> Inl e
           | Inr (f0, g) \<Rightarrow> Inr (adagrad_update base_lr g (p, a))))"

text \<open>
  A run with a single worker: every reduction returns what the worker contributes, and
  the broadcast leaves its buffer as it is.
\<close>

definition single_worker :: mpi_comm where
  "single_worker = \<lparr>allreduce_max = (\<lambda>x. x), allreduce_sum = (\<lambda>x. x), Bcast = (\<lambda>xs. xs)\<rparr>"

text \<open>
  \<^verbatim>\<open>SolverMC.__init__\<close>: the buffers are \<^verbatim>\<open>None\<close> and the cache is empty. The
  attributes that only \<^verbatim>\<open>presolve\<close> creates do not exist yet; the record gives them
  empty arrays and zeros.
\<close>

definition SolverMC_init :: "real \<Rightarrow> lossfn \<Rightarrow> (ndarray \<Rightarrow> real \<times> ndarray) \<Rightarrow> solver" where
  "SolverMC_init gamma loss reg =
     \<lparr>self_gamma = gamma, self_loss = loss, self_reg = reg,
      self_pred = None, self_glocal = None, self_g = None, self_gpred = None,
      self_gpredcache = [], self_iter = 0, self_X = Array [0] [], self_Y = Array [0] [],
      self_weight = None, self_K = 0, self_num_data = 0, self_dim = 0,
      gpredcache = False\<rparr>"

text \<open>
  \<^verbatim>\<open>SolverMC.obj\<close> returns its buffer \<^verbatim>\<open>_g\<close>, which \<^verbatim>\<open>presolve\<close> gives the shape
  of the flat parameter. An evaluation \<open>objf\<close> is \<open>grad_shaped\<close> when the gradient it
  returns has as many entries as the parameter it is given.
\<close>

definition grad_shaped :: "(nat \<Rightarrow> ndarray \<Rightarrow> error + real \<times> ndarray) \<Rightarrow> bool" where
  "grad_shaped objf =
     (\<forall>k p f g. objf k p = Inr (f, g) \<longrightarrow> length (data g) = length (data p))"

text \<open>
  What a loss of \<^verbatim>\<open>Loss2\<close> returns to its caller: the loss value and the gradient
  buffer. The cache is changed in place and is not part of the returned pair.
\<close>

definition returned :: "loss2_result \<Rightarrow> loss_result" where
  "returned r = (case r of Inl e \<Rightarrow> Inl e | Inr (f, g, c) \<Rightarrow> Inr (f, g))"

text \<open>
  The terms of the local objective that come from the data alone, named for the statements
  about \<^verbatim>\<open>obj\<close>: the normalised loss value, the normalised gradient buffer and the
  weight matrix that the first part of \<^verbatim>\<open>obj\<close> computes on a worker.
\<close>

definition loss_value :: "ndarray \<Rightarrow> solver \<Rightarrow> real" where
  "loss_value wb solver =
     (case obj_loss_part wb solver of Inl e \<Rightarrow> 0 | Inr (flocal, w, solver') \<Rightarrow> flocal)"

definition loss_grad :: "ndarray \<Rightarrow> solver \<Rightarrow> real list" where
  "loss_grad wb solver =
     (case obj_loss_part wb solver of
        Inl e \<Rightarrow> [] | Inr (flocal, w, solver') \<Rightarrow> glocal_data solver')"

definition weight_matrix :: "ndarray \<Rightarrow> solver \<Rightarrow> ndarray" where
  "weight_matrix wb solver =
     (case obj_loss_part wb solver of
        Inl e \<Rightarrow> Array [] [] | Inr (flocal, w, solver') \<Rightarrow> w)"

text \<open>
  Two workers of one run, after \<^verbatim>\<open>presolve\<close>: one feature, one class, hinge loss,
  l2 regularizer with \<open>gamma = 1/2\<close>, one example on each worker.
\<close>

definition worker0 :: solver where
  "worker0 = (SolverMC_init (1 / 2) (Loss3 loss_hinge) reg_l2)
          \<lparr>self_X := Array [1, 1] [2], self_Y := Array [1, 1] [1], self_K := 1, self_dim := 1,
           self_num_data := 2, self_glocal := Some (Array [2] [0, 0]),
           self_g := Some (Array [2] [0, 0])\<rparr>"

definition worker1 :: solver where
  "worker1 = (SolverMC_init (1 / 2) (Loss3 loss_hinge) reg_l2)
          \<lparr>self_X := Array [1, 1] [- 4], self_Y := Array [1, 1] [- 1], self_K := 1, self_dim := 1,
           self_num_data := 2, self_glocal := Some (Array [2] [0, 0]),
           self_g := Some (Array [2] [0, 0])\<rparr>"

section \<open>Properties of the regularizers and losses\<close>

text \<open>
  C6. For every weight matrix \<open>W\<close>, \<^verbatim>\<open>Reg.reg_l1\<close> returns the sum of the absolute
  values of the entries of \<open>W\<close> and a gradient of the shape of \<open>W\<close> whose entry is
  the sign of the entry of \<open>W\<close> (1 or -1), except that it is 0.5, not 0, wherever the
  entry of \<open>W\<close> is exactly 0.
\<close>

theorem reg_l1_subgradient:
  "fst (reg_l1 W) = (\<Sum>x\<leftarrow>data W. \<bar>x\<bar>) \<and>
   shape (snd (reg_l1 W)) = shape W \<and>
   length (data (snd (reg_l1 W))) = length (data W) \<and>
   (\<forall>i < length (data W).
      data (snd (reg_l1 W)) ! i =
        (if data W ! i = 0 then 0.5 else sgn (data W ! i)))"
  by (simp add: reg_l1_def ew_def np_sum_def Let_def sgn_real_def)

theorem reg_l1_subgradient_witness:
  "fst (reg_l1 (Array [2, 2] [3, 0, - 2, 0])) = 5 \<and>
   data (snd (reg_l1 (Array [2, 2] [3, 0, - 2, 0]))) ! 1 = 0.5 \<and>
   data (snd (reg_l1 (Array [2, 2] [3, 0, - 2, 0]))) ! 2 = - 1"
  using reg_l1_subgradient [of "Array [2, 2] [3, 0, - 2, 0]"]
  by (simp add: nth_Cons')

text \<open>
  C4. For labels \<open>Y\<close> and predictions \<open>pred\<close> of the same shape,
  \<^verbatim>\<open>Loss.loss_hinge\<close> with \<^verbatim>\<open>weight=None\<close> returns the sum over the entries of
  \<open>max(0, 1 - Y * pred)\<close> and a gradient of the shape of \<open>pred\<close> whose entry is 0
  where that margin is at most 0 and \<open>-Y\<close> where it is positive. This holds for all
  labels, so in particular for labels in \<open>{-1, 1}\<close>.
\<close>

theorem loss_hinge_unweighted:
  assumes "shape Y = shape pred" and "length (data Y) = length (data pred)"
  shows "\<exists>f g. loss_hinge Y pred None = Inr (f, g) \<and>
     f = (\<Sum>i < length (data pred). max 0 (1 - data Y ! i * data pred ! i)) \<and>
     shape g = shape pred \<and> length (data g) = length (data pred) \<and>
     (\<forall>i < length (data pred).
        (max 0 (1 - data Y ! i * data pred ! i) \<le> 0 \<longrightarrow> data g ! i = 0) \<and>
        (max 0 (1 - data Y ! i * data pred ! i) > 0 \<longrightarrow> data g ! i = - (data Y ! i)))"
proof -
  have "np_sum (hinge_margin Y pred) =
        (\<Sum>i < length (data pred). max 0 (1 - data Y ! i * data pred ! i))"
    using assms
    by (simp add: hinge_margin_def ew_def ew2_def np_sum_def sum_list_sum_nth atLeast0LessThan)
  then show ?thesis
    using assms
    by (simp add: loss_hinge_def hinge_margin_def ew_def ew2_def gt0_def Let_def)
qed

theorem loss_hinge_unweighted_witness:
  "loss_hinge (Array [2, 2] [1, - 1, 1, - 1]) (Array [2, 2] [1 / 2, 1 / 2, 2, - 3]) None
     = Inr (2, Array [2, 2] [- 1, 1, 0, 0])"
proof -
  obtain f g where
    r: "loss_hinge (Array [2, 2] [1, - 1, 1, - 1]) (Array [2, 2] [1 / 2, 1 / 2, 2, - 3]) None
          = Inr (f, g)"
    using loss_hinge_unweighted
            [of "Array [2, 2] [1, - 1, 1, - 1]" "Array [2, 2] [1 / 2, 1 / 2, 2, - 3]"]
    by auto
  then show ?thesis
    by (simp add: loss_hinge_def hinge_margin_def ew_def ew2_def gt0_def np_sum_def)
qed

text \<open>
  C10. The multiclass logistic losses never read the per-example weight: for all labels,
  predictions, buffers and any two weight arguments (\<^verbatim>\<open>None\<close> included),
  \<^verbatim>\<open>Loss.loss_multiclass_logistic\<close>, \<^verbatim>\<open>Loss2.loss_multiclass_logistic\<close> and
  \<^verbatim>\<open>Loss2.loss_multiclass_logistic_yvector\<close> each return the same result.
\<close>

theorem multiclass_logistic_ignores_weight:
  "loss_multiclass_logistic mexp mlog Y pred w1 =
     loss_multiclass_logistic mexp mlog Y pred w2 \<and>
   loss2_multiclass_logistic mexp mlog Y pred w1 gpred cache =
     loss2_multiclass_logistic mexp mlog Y pred w2 gpred cache \<and>
   loss2_multiclass_logistic_yvector mexp mlog Yv pred w1 gpred cache =
     loss2_multiclass_logistic_yvector mexp mlog Yv pred w2 gpred cache"
  by (simp add: loss_multiclass_logistic_def loss2_multiclass_logistic_def
                loss2_multiclass_logistic_yvector_def)

subsection \<open>Rows and broadcasts\<close>

lemma map2_replicate:
  "length xs = k \<Longrightarrow> map2 f xs (replicate k m) = map (\<lambda>x. f x m) xs"
  by (induction xs arbitrary: k) auto

lemma concat_replicate_replicate:
  "concat (replicate n (replicate k c)) = replicate (n * k) c"
  by (induction n) (auto simp: replicate_add)

lemma amax_shift: "xs \<noteq> [] \<Longrightarrow> amax (map (\<lambda>x. x + c) xs) = amax xs + c"
  by (induction xs rule: amax.induct) (auto simp: max_def)

text \<open>
  Subtracting the row maxima cancels a shift of the rows: the rows of the matrix
  \<open>xs\<close>, shifted by the entries of \<open>cs\<close>, have the maxima of \<open>xs\<close> shifted alike.
\<close>

lemma shift_cancel:
  "length xs = n * k \<Longrightarrow> length cs = n \<Longrightarrow> 0 < k \<Longrightarrow>
   map2 (-) (map2 (+) xs (concat (map (replicate k) cs)))
     (concat (map (replicate k)
        (map amax (chunks n k (map2 (+) xs (concat (map (replicate k) cs)))))))
   = map2 (-) xs (concat (map (replicate k) (map amax (chunks n k xs))))"
proof (induction n arbitrary: xs cs)
  case 0
  then show ?case by simp
next
  case (Suc n)
  then obtain c cs' where cs: "cs = c # cs'" and lcs: "length cs' = n"
    by (cases cs) auto
  define r where "r = take k xs"
  define rest where "rest = drop k xs"
  have xs: "xs = r @ rest" and lr: "length r = k" and lrest: "length rest = n * k"
    using Suc.prems by (auto simp: r_def rest_def)
  have rne: "r \<noteq> []" using lr Suc.prems by auto
  have sh: "map2 (+) xs (concat (map (replicate k) cs))
            = map (\<lambda>x. x + c) r @ map2 (+) rest (concat (map (replicate k) cs'))"
    using lr by (simp add: xs cs map2_replicate)
  have IH: "map2 (-) (map2 (+) rest (concat (map (replicate k) cs')))
     (concat (map (replicate k)
        (map amax (chunks n k (map2 (+) rest (concat (map (replicate k) cs')))))))
   = map2 (-) rest (concat (map (replicate k) (map amax (chunks n k rest))))"
    using Suc.IH[OF lrest lcs] Suc.prems by simp
  show ?case
    unfolding sh
    using lr rne IH
    by (simp add: xs amax_shift map2_replicate)
qed

lemma multiclass_logistic_shift_rows:
  assumes "is_matrix n k pred" and "length (data cs) = n"
  shows "loss_multiclass_logistic mexp mlog Y (ew2 (+) pred (newaxis k cs)) weight =
         loss_multiclass_logistic mexp mlog Y pred weight"
proof (cases "k = 0")
  case True
  then show ?thesis using assms
    by (simp add: loss_multiclass_logistic_def max_axis1_def ncols_def ew2_def is_matrix_def)
next
  case False
  then have k: "0 < k" by simp
  have d: "length (data pred) = n * k" and s: "shape pred = [n, k]"
    using assms by (auto simp: is_matrix_def)
  show ?thesis
    using shift_cancel[OF d assms(2) k] s False
    by (simp add: loss_multiclass_logistic_def max_axis1_def ncols_def nrows_def ew2_def
          rows_def newaxis_def Let_def)
qed

text \<open>
  C7. For an \<open>n\<close> by \<open>k\<close> prediction matrix, every label matrix and every constant
  \<open>c\<close>, \<^verbatim>\<open>Loss.loss_multiclass_logistic\<close> returns on \<open>pred + c\<close> what it returns on
  \<open>pred\<close>: the same loss value (and the same gradient, or the same error when the rows
  are empty). The same holds when each row gets a constant of its own,
  \<open>pred + cs[:, np.newaxis]\<close>.
\<close>

theorem multiclass_logistic_shift_invariant:
  assumes "is_matrix n k pred"
  shows "loss_multiclass_logistic mexp mlog Y (ew (\<lambda>x. x + c) pred) weight =
           loss_multiclass_logistic mexp mlog Y pred weight \<and>
         (length (data cs) = n \<longrightarrow>
            loss_multiclass_logistic mexp mlog Y (ew2 (+) pred (newaxis k cs)) weight =
              loss_multiclass_logistic mexp mlog Y pred weight)"
proof -
  have "map (\<lambda>x. x + c) (data pred) =
        map2 (+) (data pred) (concat (map (replicate k) (replicate n c)))"
    using assms by (simp add: is_matrix_def concat_replicate_replicate map2_replicate)
  then have "ew (\<lambda>x. x + c) pred = ew2 (+) pred (newaxis k (Array [n] (replicate n c)))"
    by (simp add: ew_def ew2_def newaxis_def)
  then show ?thesis
    using multiclass_logistic_shift_rows[OF assms, of "Array [n] (replicate n c)"]
          multiclass_logistic_shift_rows[OF assms, of cs]
    by simp
qed

theorem multiclass_logistic_shift_invariant_witness:
  "loss_multiclass_logistic exp ln (Array [2, 2] [1, 0, 0, 1])
       (ew (\<lambda>x. x + 7) (Array [2, 2] [1, 2, 3, 5])) None =
     loss_multiclass_logistic exp ln (Array [2, 2] [1, 0, 0, 1])
       (Array [2, 2] [1, 2, 3, 5]) None \<and>
   loss_multiclass_logistic exp ln (Array [2, 2] [1, 0, 0, 1])
       (ew2 (+) (Array [2, 2] [1, 2, 3, 5]) (newaxis 2 (Array [2] [10, - 4]))) None =
     loss_multiclass_logistic exp ln (Array [2, 2] [1, 0, 0, 1])
       (Array [2, 2] [1, 2, 3, 5]) None"
  using multiclass_logistic_shift_invariant
          [of 2 2 "Array [2, 2] [1, 2, 3, 5]" exp ln "Array [2, 2] [1, 0, 0, 1]" 7 None
              "Array [2] [10, - 4]"]
  by (simp add: is_matrix_def)

section \<open>Properties of parameter flattening\<close>

lemma unflatten_flat:
  assumes "length ws = d * K" and "self_K self = K" and "self_dim self = d"
  shows "unflatten_params self (Array [n] (ws @ bs)) =
         Inr (Array [d, K] ws, Array [length bs] bs)"
  using assms
  by (simp add: unflatten_params_def np_reshape_def slice_to_def slice_from_def Let_def
        mult.commute)

text \<open>
  C3. For a weight matrix \<open>W\<close> of shape \<open>[d, K]\<close> and a bias vector \<open>b\<close> of length
  \<open>K\<close>, given as a tuple or as a list, \<^verbatim>\<open>flatten_params\<close> returns a flat array of
  length \<open>K * (d + 1)\<close>, and \<^verbatim>\<open>unflatten_params\<close> of a solver with \<^verbatim>\<open>_K = K\<close> and
  \<^verbatim>\<open>_dim = d\<close> returns exactly \<open>(W, b)\<close> from it.
\<close>

theorem unflatten_flatten_params:
  assumes "is_matrix d K W" and "is_vector K b"
    and "self_K self = K" and "self_dim self = d"
    and "params = PyTuple [W, b] \<or> params = PyList [W, b]"
  shows "\<exists>wb. flatten_params params = Inr (PyArray wb) \<and>
           shape wb = [K * (d + 1)] \<and> length (data wb) = K * (d + 1) \<and>
           unflatten_params self wb = Inr (W, b)"
proof -
  have W: "Array [d, K] (data W) = W" and b: "Array [length (data b)] (data b) = b"
    using assms(1,2) by (cases W; cases b; simp add: is_matrix_def is_vector_def)+
  have lw: "length (data W) = d * K" and lb: "length (data b) = K"
    using assms(1,2) by (simp_all add: is_matrix_def is_vector_def)
  have fl: "flatten_params params = Inr (PyArray (Array [K * (d + 1)] (data W @ data b)))"
    using assms(5) lw lb
    by (auto simp: flatten_params_def np_array_def np_hstack_def np_flatten_def algebra_simps)
  show ?thesis
    using fl unflatten_flat[OF lw assms(3,4), of "K * (d + 1)" "data b"] lw lb W b
    by (simp add: algebra_simps)
qed

theorem unflatten_flatten_params_witness:
  "\<exists>wb. flatten_params (PyTuple [Array [2, 1] [3, 4], Array [1] [5]]) = Inr (PyArray wb) \<and>
         shape wb = [3] \<and> length (data wb) = 3 \<and>
         unflatten_params ((SolverMC_init 0 (Loss3 loss_hinge) reg_l2)
                              \<lparr>self_K := 1, self_dim := 2\<rparr>) wb
           = Inr (Array [2, 1] [3, 4], Array [1] [5])"
  using unflatten_flatten_params
          [of 2 1 "Array [2, 1] [3, 4]" "Array [1] [5]"
              "(SolverMC_init 0 (Loss3 loss_hinge) reg_l2)\<lparr>self_K := 1, self_dim := 2\<rparr>"
              "PyTuple [Array [2, 1] [3, 4], Array [1] [5]]"]
  by (simp add: is_matrix_def is_vector_def)

text \<open>
  C9. \<^verbatim>\<open>flatten_params\<close> raises TypeError for every input that is neither a list nor a
  tuple, every array included: \<^verbatim>\<open>type(params)\<close> is never the function \<^verbatim>\<open>np.array\<close>,
  so the branch that would return the input unchanged is never taken.
\<close>

theorem flatten_params_rejects_arrays:
  "py_type params \<noteq> np_array \<and>
   (py_type params \<noteq> TypeObject T_list \<and> py_type params \<noteq> TypeObject T_tuple
      \<longrightarrow> flatten_params params = Inl TypeError) \<and>
   flatten_params (PyArray a) = Inl TypeError"
  by (cases params) (simp_all add: flatten_params_def np_array_def)

theorem flatten_params_rejects_arrays_witness:
  "flatten_params (PyArray (Array [3] [3, 4, 5])) = Inl TypeError \<and>
   flatten_params PyNone = Inl TypeError"
  using flatten_params_rejects_arrays [of "PyArray (Array [3] [3, 4, 5])" "Array [3] [3, 4, 5]"]
        flatten_params_rejects_arrays [of PyNone]
  by simp

section \<open>Properties of presolve\<close>

lemma reshape_2d_ok:
  "wf a \<Longrightarrow> shape a = n # rest \<Longrightarrow> reshape_2d a = Inr (Array [n, prod_list rest] (data a))"
  by (simp add: reshape_2d_def np_reshape_def wf_def)

lemma presolve_zero_dim_labels:
  assumes "shape Y = []" and "wf X"
  shows "presolve COMM self X Y weight param_init None = Inl IndexError"
proof (cases "shape X")
  case Nil
  then show ?thesis by (simp add: presolve_def reshape_2d_def)
next
  case (Cons n rest)
  then show ?thesis
    using assms reshape_2d_ok[OF assms(2) Cons]
    by (simp add: presolve_def Let_def reshape_2d_def)
qed

lemma presolve_many_dim_labels:
  assumes X: "wf X" "shape X = n # xrest" and Y: "wf Y" "shape Y = m # k # yrest"
    and g: "self_glocal self = None \<or> self_g self \<noteq> None"
  shows "\<exists>p s. presolve COMM self X Y weight PyNone None = Inr (p, s) \<and>
           self_K s = prod_list (k # yrest) \<and>
           self_Y s = Array [m, prod_list (k # yrest)] (data Y)"
proof -
  have rx: "reshape_2d X = Inr (Array [n, prod_list xrest] (data X))"
    using reshape_2d_ok[OF X] .
  have ry: "reshape_2d Y = Inr (Array [m, prod_list (k # yrest)] (data Y))"
    using reshape_2d_ok[OF Y] .
  show ?thesis
    using g Y(2)
    apply (simp add: presolve_def Let_def rx ry del: prod_list.Cons)
    apply (cases weight; cases "self_glocal self"; cases "self_g self"; cases "self_loss self")
    apply (auto simp del: prod_list.Cons)
    done
qed

lemma presolve_empty_label_vector:
  assumes "wf X" and "shape X \<noteq> []" and "length (shape Y) = 1" and "data Y = []"
  shows "presolve COMM self X Y weight param_init None = Inl ValueError"
proof -
  obtain n rest where sx: "shape X = n # rest" using assms(2) by (cases "shape X") auto
  show ?thesis
    using assms(3,4) reshape_2d_ok[OF assms(1) sx]
    by (simp add: presolve_def Let_def np_max_def)
qed

lemma presolve_negative_class_count:
  assumes "wf X" and "shape X \<noteq> []" and "length (shape Y) = 1" and "data Y \<noteq> []"
    and "allreduce_max COMM (amax (data Y)) = of_int z" and "z + 1 < 0"
  shows "presolve COMM self X Y weight param_init None = Inl ValueError"
proof -
  obtain n rest where sx: "shape X = n # rest" using assms(2) by (cases "shape X") auto
  have "\<lfloor>allreduce_max COMM (amax (data Y)) + 1\<rfloor> = z + 1"
    using assms(5) by simp
  then show ?thesis
    using assms(3,4,6) reshape_2d_ok[OF assms(1) sx]
    by (simp add: presolve_def Let_def np_max_def)
qed

lemma presolve_label_vector:
  assumes X: "wf X" "shape X = n # xrest" and "length (shape Y) = 1" and "data Y \<noteq> []"
    and "allreduce_max COMM (amax (data Y)) = of_int z" and "0 \<le> z + 1"
    and g: "self_glocal self = None \<or> self_g self \<noteq> None"
  shows "\<exists>p s. presolve COMM self X Y weight PyNone None = Inr (p, s) \<and>
           self_K s = nat (z + 1) \<and> self_Y s = Y"
proof -
  have rx: "reshape_2d X = Inr (Array [n, prod_list xrest] (data X))"
    using reshape_2d_ok[OF X] .
  have fl: "\<lfloor>allreduce_max COMM (amax (data Y)) + 1\<rfloor> = z + 1"
    using assms(5) by simp
  show ?thesis
    using g assms(3,4,6)
    apply (simp add: presolve_def Let_def rx np_max_def fl)
    apply (cases weight; cases "self_glocal self"; cases "self_g self"; cases "self_loss self")
    apply auto
    done
qed

text \<open>
  C8, as the spec states it, fails: called with \<^verbatim>\<open>K=None\<close> and a three-dimensional
  label array of shape \<open>[2, 3, 4]\<close>, \<^verbatim>\<open>presolve\<close> returns normally, with the labels
  reshaped to \<open>[2, 12]\<close> and 12 classes.
\<close>

theorem presolve_accepts_3d_labels:
  "length (shape (Array [2, 3, 4] (replicate 24 1))) = 3 \<and>
   (\<exists>p s. presolve single_worker (SolverMC_init 1 (Loss3 loss_hinge) reg_l2)
             (Array [2, 1] [0, 0]) (Array [2, 3, 4] (replicate 24 1)) None PyNone None
           = Inr (p, s) \<and>
          self_K s = 12 \<and> self_Y s = Array [2, 12] (replicate 24 1))"
  by (simp add: presolve_def reshape_2d_def np_reshape_def Let_def SolverMC_init_def alloc_def)

text \<open>
  C8, amended. \<^verbatim>\<open>presolve\<close> is called with \<^verbatim>\<open>K=None\<close> on a well-formed \<open>X\<close>.
  \<^item> A label array without any dimension raises IndexError.
  \<^item> A label array with two or more dimensions is accepted: it is reshaped to the matrix
    \<open>[Y.shape[0], prod(Y.shape[1:])]\<close>, and the number of classes is its number of
    columns.
  \<^item> A one-dimensional label array raises ValueError when it is empty, and when the
    reduced maximum label plus one is negative; otherwise it is accepted as it is, and the
    number of classes is the reduced maximum label plus one.

  The two cases of acceptance are stated for \<^verbatim>\<open>param_init=None\<close>, on a solver whose
  gradient buffers are both allocated or both not; the cases of a one-dimensional array
  with a maximum are stated for an integer reduced maximum \<open>z\<close>, and the two ValueError
  cases for an \<open>X\<close> with at least one dimension.
\<close>

theorem presolve_label_dimensions:
  assumes "wf X"
  shows "(shape Y = [] \<longrightarrow>
            presolve COMM self X Y weight param_init None = Inl IndexError) \<and>
         (shape X = n # xrest \<and> wf Y \<and> shape Y = m # k # yrest \<and>
          (self_glocal self = None \<or> self_g self \<noteq> None) \<longrightarrow>
            (\<exists>p s. presolve COMM self X Y weight PyNone None = Inr (p, s) \<and>
                   self_K s = prod_list (k # yrest) \<and>
                   self_Y s = Array [m, prod_list (k # yrest)] (data Y))) \<and>
         (shape X \<noteq> [] \<and> length (shape Y) = 1 \<and> data Y = [] \<longrightarrow>
            presolve COMM self X Y weight param_init None = Inl ValueError) \<and>
         (shape X \<noteq> [] \<and> length (shape Y) = 1 \<and> data Y \<noteq> [] \<and>
          allreduce_max COMM (amax (data Y)) = of_int z \<and> z + 1 < 0 \<longrightarrow>
            presolve COMM self X Y weight param_init None = Inl ValueError) \<and>
         (shape X = n # xrest \<and> length (shape Y) = 1 \<and> data Y \<noteq> [] \<and>
          allreduce_max COMM (amax (data Y)) = of_int z \<and> 0 \<le> z + 1 \<and>
          (self_glocal self = None \<or> self_g self \<noteq> None) \<longrightarrow>
            (\<exists>p s. presolve COMM self X Y weight PyNone None = Inr (p, s) \<and>
                   self_K s = nat (z + 1) \<and> self_Y s = Y))"
proof (intro conjI impI)
  assume "shape Y = []"
  then show "presolve COMM self X Y weight param_init None = Inl IndexError"
    by (rule presolve_zero_dim_labels[OF _ assms])
next
  assume "shape X = n # xrest \<and> wf Y \<and> shape Y = m # k # yrest \<and>
          (self_glocal self = None \<or> self_g self \<noteq> None)"
  then show "\<exists>p s. presolve COMM self X Y weight PyNone None = Inr (p, s) \<and>
                   self_K s = prod_list (k # yrest) \<and>
                   self_Y s = Array [m, prod_list (k # yrest)] (data Y)"
    using presolve_many_dim_labels[OF assms] by blast
next
  assume "shape X \<noteq> [] \<and> length (shape Y) = 1 \<and> data Y = []"
  then show "presolve COMM self X Y weight param_init None = Inl ValueError"
    using presolve_empty_label_vector[OF assms] by blast
next
  assume "shape X \<noteq> [] \<and> length (shape Y) = 1 \<and> data Y \<noteq> [] \<and>
          allreduce_max COMM (amax (data Y)) = of_int z \<and> z + 1 < 0"
  then show "presolve COMM self X Y weight param_init None = Inl ValueError"
    using presolve_negative_class_count[OF assms] by blast
next
  assume "shape X = n # xrest \<and> length (shape Y) = 1 \<and> data Y \<noteq> [] \<and>
          allreduce_max COMM (amax (data Y)) = of_int z \<and> 0 \<le> z + 1 \<and>
          (self_glocal self = None \<or> self_g self \<noteq> None)"
  then show "\<exists>p s. presolve COMM self X Y weight PyNone None = Inr (p, s) \<and>
                   self_K s = nat (z + 1) \<and> self_Y s = Y"
    using presolve_label_vector[OF assms] by blast
qed

theorem presolve_label_dimensions_witness:
  "presolve single_worker (SolverMC_init 1 (Loss3 loss_hinge) reg_l2)
     (Array [2, 1] [0, 0]) (Array [] [7]) None PyNone None = Inl IndexError \<and>
   (\<exists>p s. presolve single_worker (SolverMC_init 1 (Loss3 loss_hinge) reg_l2)
             (Array [2, 1] [0, 0]) (Array [2, 2, 2] [1, 0, 0, 0, 0, 0, 0, 1]) None PyNone None
           = Inr (p, s) \<and>
          self_K s = 4 \<and> self_Y s = Array [2, 4] [1, 0, 0, 0, 0, 0, 0, 1]) \<and>
   presolve single_worker (SolverMC_init 1 (Loss3 loss_hinge) reg_l2)
     (Array [2, 1] [0, 0]) (Array [0] []) None PyNone None = Inl ValueError \<and>
   presolve single_worker (SolverMC_init 1 (Loss3 loss_hinge) reg_l2)
     (Array [2, 1] [0, 0]) (Array [2] [- 3, - 2]) None PyNone None = Inl ValueError \<and>
   (\<exists>p s. presolve single_worker (SolverMC_init 1 (Loss3 loss_hinge) reg_l2)
             (Array [2, 1] [0, 0]) (Array [2] [0, 2]) None PyNone None
           = Inr (p, s) \<and>
          self_K s = 3 \<and> self_Y s = Array [2] [0, 2])"
proof -
  have wfX: "wf (Array [2, 1] [0, 0])" by (simp add: wf_def)
  note t = presolve_label_dimensions
             [OF wfX, where COMM = single_worker
                and self = "SolverMC_init 1 (Loss3 loss_hinge) reg_l2"
                and weight = None and param_init = PyNone and n = 2 and xrest = "[1]"]
  have a: "presolve single_worker (SolverMC_init 1 (Loss3 loss_hinge) reg_l2)
     (Array [2, 1] [0, 0]) (Array [] [7]) None PyNone None = Inl IndexError"
    using t[where Y = "Array [] [7]"] by simp
  have b: "\<exists>p s. presolve single_worker (SolverMC_init 1 (Loss3 loss_hinge) reg_l2)
             (Array [2, 1] [0, 0]) (Array [2, 2, 2] [1, 0, 0, 0, 0, 0, 0, 1]) None PyNone None
           = Inr (p, s) \<and>
          self_K s = 4 \<and> self_Y s = Array [2, 4] [1, 0, 0, 0, 0, 0, 0, 1]"
    using t[where Y = "Array [2, 2, 2] [1, 0, 0, 0, 0, 0, 0, 1]" and m = 2 and k = 2
              and yrest = "[2]"]
    by (simp add: wf_def SolverMC_init_def)
  have c: "presolve single_worker (SolverMC_init 1 (Loss3 loss_hinge) reg_l2)
     (Array [2, 1] [0, 0]) (Array [0] []) None PyNone None = Inl ValueError"
    using t[where Y = "Array [0] []"] by simp
  have d: "presolve single_worker (SolverMC_init 1 (Loss3 loss_hinge) reg_l2)
     (Array [2, 1] [0, 0]) (Array [2] [- 3, - 2]) None PyNone None = Inl ValueError"
    using t[where Y = "Array [2] [- 3, - 2]" and z = "- 2"]
    by (simp add: single_worker_def)
  have e: "\<exists>p s. presolve single_worker (SolverMC_init 1 (Loss3 loss_hinge) reg_l2)
             (Array [2, 1] [0, 0]) (Array [2] [0, 2]) None PyNone None
           = Inr (p, s) \<and>
          self_K s = 3 \<and> self_Y s = Array [2] [0, 2]"
    using t[where Y = "Array [2] [0, 2]" and z = 2]
    by (simp add: single_worker_def SolverMC_init_def)
  from a b c d e show ?thesis by (intro conjI)
qed

section \<open>Properties of the Adagrad branch\<close>

lemma adagrad_Suc_Inr:
  assumes "adagrad_iterate objf eta lr p0 (Suc n) = Inr (p', a')"
  obtains p a f0 g where "adagrad_iterate objf eta lr p0 n = Inr (p, a)"
    and "objf n p = Inr (f0, g)" and "(p', a') = adagrad_update lr g (p, a)"
  using assms by (auto split: sum.splits)

lemma adagrad_lengths:
  assumes "grad_shaped objf" and "adagrad_iterate objf eta lr p0 n = Inr (p, a)"
  shows "length (data p) = length (data p0) \<and> length (data a) = length (data p0)"
  using assms(2)
proof (induction n arbitrary: p a)
  case 0
  then show ?case by (auto simp: accum_grad_init_def ew_def)
next
  case (Suc n)
  from Suc.prems obtain q b f0 g where
    prev: "adagrad_iterate objf eta lr p0 n = Inr (q, b)" and
    ev: "objf n q = Inr (f0, g)" and
    upd: "(p, a) = adagrad_update lr g (q, b)"
    by (rule adagrad_Suc_Inr)
  have "length (data g) = length (data q)"
    using assms(1) ev by (auto simp: grad_shaped_def)
  then show ?case
    using Suc.IH[OF prev] upd by (auto simp: adagrad_update_def Let_def ew2_def ew_def)
qed

lemma adagrad_step:
  assumes "grad_shaped objf" and "adagrad_iterate objf eta lr p0 n = Inr (p, a)"
    and "objf n p = Inr (f0, g)" and "i < length (data p0)"
  shows "\<exists>p' a'. adagrad_iterate objf eta lr p0 (Suc n) = Inr (p', a') \<and>
           data a' ! i = data a ! i + data g ! i * data g ! i \<and>
           data p' ! i = data p ! i - data g ! i / sqrt (data a' ! i) * lr"
proof -
  have "length (data g) = length (data p)"
    using assms(1,3) by (auto simp: grad_shaped_def)
  moreover have "length (data p) = length (data p0)" "length (data a) = length (data p0)"
    using adagrad_lengths[OF assms(1,2)] by auto
  ultimately show ?thesis
    using assms(2,3,4) by (simp add: adagrad_update_def Let_def ew2_def ew_def)
qed

lemma adagrad_step_mono:
  assumes "grad_shaped objf" and "adagrad_iterate objf eta lr p0 n = Inr (p, a)"
    and "adagrad_iterate objf eta lr p0 (Suc n) = Inr (p', a')" and "i < length (data p0)"
  shows "data a ! i \<le> data a' ! i"
proof -
  from assms(3) obtain q b f0 g where
    prev: "adagrad_iterate objf eta lr p0 n = Inr (q, b)" and
    ev: "objf n q = Inr (f0, g)" and
    upd: "(p', a') = adagrad_update lr g (q, b)"
    by (rule adagrad_Suc_Inr)
  have qb: "q = p" "b = a" using prev assms(2) by auto
  have "length (data g) = length (data p)"
    using assms(1) ev qb by (auto simp: grad_shaped_def)
  moreover have "length (data p) = length (data p0)" "length (data a) = length (data p0)"
    using adagrad_lengths[OF assms(1,2)] by auto
  ultimately show ?thesis
    using upd qb assms(4) by (auto simp: adagrad_update_def Let_def ew2_def)
qed

lemma adagrad_mono:
  assumes "grad_shaped objf" and "m \<le> n"
    and "adagrad_iterate objf eta lr p0 m = Inr (pm, am)"
    and "adagrad_iterate objf eta lr p0 n = Inr (pn, an)"
    and "i < length (data p0)"
  shows "data am ! i \<le> data an ! i"
  using assms(2,4)
proof (induction n arbitrary: pn an rule: dec_induct)
  case base
  then show ?case using assms(3) by simp
next
  case (step n)
  obtain q b where prev: "adagrad_iterate objf eta lr p0 n = Inr (q, b)"
    using step.prems by (auto split: sum.splits)
  have "data am ! i \<le> data b ! i" using step.IH[OF prev] .
  also have "\<dots> \<le> data an ! i"
    using adagrad_step_mono[OF assms(1) prev step.prems assms(5)] .
  finally show ?case .
qed

text \<open>
  C5. In the Adagrad branch started from iteration 0, with an evaluation that returns
  gradients of the size of the parameter: before the first iteration every entry of
  \<^verbatim>\<open>accum_grad\<close> is \<open>eta\<^sup>2\<close> plus the machine epsilon (\<open>eta\<close> is 0 when the option is
  absent); an iteration whose evaluation succeeds adds the square of each gradient entry to
  it and then subtracts \<open>g / sqrt(accum_grad) * base_lr\<close> from the parameter; so every
  entry of \<^verbatim>\<open>accum_grad\<close> after \<open>m\<close> iterations is at most the entry after any
  \<open>n \<ge> m\<close> iterations.
\<close>

theorem adagrad_accum_grad_monotone:
  assumes "grad_shaped objf"
  shows "adagrad_iterate objf eta lr p0 0 =
           Inr (p0, Array (shape p0) (replicate (length (data p0))
                      ((case eta of None \<Rightarrow> 0 | Some e \<Rightarrow> e)\<^sup>2 + float64_eps))) \<and>
         (\<forall>n p a f0 g i.
            adagrad_iterate objf eta lr p0 n = Inr (p, a) \<and> objf n p = Inr (f0, g) \<and>
            i < length (data p0) \<longrightarrow>
              (\<exists>p' a'. adagrad_iterate objf eta lr p0 (Suc n) = Inr (p', a') \<and>
                 data a' ! i = data a ! i + data g ! i * data g ! i \<and>
                 data p' ! i = data p ! i - data g ! i / sqrt (data a' ! i) * lr)) \<and>
         (\<forall>m n pm am pn an i.
            m \<le> n \<and> adagrad_iterate objf eta lr p0 m = Inr (pm, am) \<and>
            adagrad_iterate objf eta lr p0 n = Inr (pn, an) \<and> i < length (data p0) \<longrightarrow>
              data am ! i \<le> data an ! i)"
proof (intro conjI allI impI)
  show "adagrad_iterate objf eta lr p0 0 =
           Inr (p0, Array (shape p0) (replicate (length (data p0))
                      ((case eta of None \<Rightarrow> 0 | Some e \<Rightarrow> e)\<^sup>2 + float64_eps)))"
    by (simp add: accum_grad_init_def ew_def)
next
  fix n p a f0 g i
  assume "adagrad_iterate objf eta lr p0 n = Inr (p, a) \<and> objf n p = Inr (f0, g) \<and>
          i < length (data p0)"
  then show "\<exists>p' a'. adagrad_iterate objf eta lr p0 (Suc n) = Inr (p', a') \<and>
                 data a' ! i = data a ! i + data g ! i * data g ! i \<and>
                 data p' ! i = data p ! i - data g ! i / sqrt (data a' ! i) * lr"
    using adagrad_step[OF assms] by blast
next
  fix m n pm am pn an i
  assume "m \<le> n \<and> adagrad_iterate objf eta lr p0 m = Inr (pm, am) \<and>
          adagrad_iterate objf eta lr p0 n = Inr (pn, an) \<and> i < length (data p0)"
  then show "data am ! i \<le> data an ! i"
    using adagrad_mono[OF assms] by blast
qed

theorem adagrad_accum_grad_monotone_witness:
  "grad_shaped (\<lambda>k p. Inr (0, p)) \<and>
   (\<exists>p a. adagrad_iterate (\<lambda>k p. Inr (0, p)) (Some 1) (1 / 2) (Array [2] [3, 4]) (Suc 0)
            = Inr (p, a) \<and>
          data a ! 0 = 1 + float64_eps + 9 \<and> 1 + float64_eps \<le> data a ! 0)"
proof -
  have gs: "grad_shaped (\<lambda>k p. Inr (0, p))"
    by (simp add: grad_shaped_def)
  note t = adagrad_accum_grad_monotone [OF gs, of "Some 1" "1 / 2" "Array [2] [3, 4]"]
  have init: "adagrad_iterate (\<lambda>k p. Inr (0, p)) (Some 1) (1 / 2) (Array [2] [3, 4]) 0 =
                Inr (Array [2] [3, 4], Array [2] [1 + float64_eps, 1 + float64_eps])"
    by (simp add: accum_grad_init_def ew_def)
  have "\<exists>p' a'. adagrad_iterate (\<lambda>k p. Inr (0, p)) (Some 1) (1 / 2) (Array [2] [3, 4]) (Suc 0)
                = Inr (p', a') \<and>
       data a' ! 0 = data (Array [2] [1 + float64_eps, 1 + float64_eps]) ! 0 +
                     data (Array [2] [3, 4]) ! 0 * data (Array [2] [3, 4]) ! 0 \<and>
       data p' ! 0 = data (Array [2] [3, 4]) ! 0 -
                     data (Array [2] [3, 4]) ! 0 / sqrt (data a' ! 0) * (1 / 2)"
    by (rule t[THEN conjunct2, THEN conjunct1, rule_format,
               of 0 "Array [2] [3, 4]" "Array [2] [1 + float64_eps, 1 + float64_eps]" 0
                  "Array [2] [3, 4]" 0])
       (simp only: init, simp)
  then obtain p' a' where
    r: "adagrad_iterate (\<lambda>k p. Inr (0, p)) (Some 1) (1 / 2) (Array [2] [3, 4]) (Suc 0)
          = Inr (p', a')" and
    a: "data a' ! 0 = 1 + float64_eps + 9"
    by auto
  have "1 + float64_eps \<le> data a' ! 0" using a by simp
  with r a gs show ?thesis by blast
qed

section \<open>The buffer-reusing losses against the allocating ones\<close>

lemma map2_replicate_left:
  "length xs = k \<Longrightarrow> map2 f (replicate k m) xs = map (\<lambda>x. f m x) xs"
  by (induction xs arbitrary: k) auto

lemma length_bcast: "length (concat (map (replicate k) w)) = length w * k"
  by (induction w) auto

lemma length_colsum:
  "length ys = n * k \<Longrightarrow> length (foldr (map2 (+)) (chunks n k ys) (replicate k (0::real))) = k"
  by (induction n arbitrary: ys) auto

lemma sum_list_map2_add:
  "length xs = length ys \<Longrightarrow> sum_list (map2 (+) xs ys) = sum_list xs + sum_list (ys::real list)"
  by (induction xs ys rule: list_induct2) auto

lemma sum_colsum:
  "length ys = n * k \<Longrightarrow>
   sum_list (foldr (map2 (+)) (chunks n k ys) (replicate k (0::real))) = sum_list ys"
proof (induction n arbitrary: ys)
  case 0
  then show ?case by (simp add: sum_list_replicate)
next
  case (Suc n)
  have l: "length (drop k ys) = n * k" "length (take k ys) = k" using Suc.prems by auto
  have "sum_list ys = sum_list (take k ys) + sum_list (drop k ys)"
    by (metis append_take_drop_id sum_list_append)
  then show ?case
    using Suc.IH[OF l(1)] l length_colsum[OF l(1)]
    by (simp add: sum_list_map2_add)
qed

lemma weighted_rows:
  "length xs = n * k \<Longrightarrow> length w = n \<Longrightarrow>
   sum_list (map2 (*) (concat (map (replicate k) w)) xs)
   = sum_list (map2 (*) w (map sum_list (chunks n k (xs::real list))))"
proof (induction n arbitrary: xs w)
  case 0
  then show ?case by simp
next
  case (Suc n)
  then obtain c w' where w: "w = c # w'" and lw: "length w' = n"
    by (cases w) auto
  define r where "r = take k xs"
  define rest where "rest = drop k xs"
  have xs: "xs = r @ rest" and lr: "length r = k" and lrest: "length rest = n * k"
    using Suc.prems by (auto simp: r_def rest_def)
  have z: "map2 (*) (concat (map (replicate k) w)) xs
         = map (\<lambda>x. c * x) r @ map2 (*) (concat (map (replicate k) w')) rest"
    using lr by (simp add: w xs map2_replicate_left)
  show ?case
    unfolding z
    using Suc.IH[OF lrest lw] lr
    by (simp add: w xs sum_list_const_mult)
qed

lemmas arr_defs = ew_def ew2_def assign_all_def gt0_def np_dot_def np_sum_def sum_axis1_def
  sum_axis0_def newaxis_def nrows_def ncols_def rows_def inner1d_def np_dot_vm_def

lemma margin_data:
  "length y = length p \<Longrightarrow>
   map (\<lambda>x. max x 0) (map (\<lambda>x. x + 1) (map (\<lambda>x. x * (- 1)) (map2 (*) p y)))
   = map (\<lambda>x. max 0 (1 - x)) (map2 (*) y (p::real list))"
  by (rule nth_equalityI) (simp_all add: max.commute mult.commute)

lemma margin_inplace_eq:
  assumes "shape Y = shape pred" "shape gpred = shape pred" "length (data Y) = length (data pred)"
  shows "margin_inplace Y pred gpred = hinge_margin Y pred"
  using assms margin_data[OF assms(3)]
  by (simp add: margin_inplace_def hinge_margin_def arr_defs Let_def del: map_map)

lemma loss2_l2_unweighted:
  assumes "shape Y = shape pred" "length (data Y) = length (data pred)" "shape gpred = shape pred"
  shows "returned (loss2_l2 Y pred None gpred cache) = loss_l2 Y pred None"
  using assms
  by (simp add: loss2_l2_def loss_l2_def returned_def arr_defs Let_def mult.commute)


lemma shape_ops [simp]:
  "shape (ew f a) = shape a" "shape (ew2 h a b) = shape a"
  "shape (assign_all a b) = shape a" "shape (gt0 a) = shape a"
  "shape (mathutil_exp f a) = shape a" "shape (mathutil_log f a) = shape a"
  by (simp_all add: ew_def ew2_def assign_all_def gt0_def mathutil_exp_def mathutil_log_def)

lemma array_eqI:
  "shape a = shape b \<Longrightarrow> length (data a) = length (data b) \<Longrightarrow>
   (\<And>i. i < length (data a) \<Longrightarrow> data a ! i = data b ! i) \<Longrightarrow> a = b"
  by (cases a; cases b) (simp add: nth_equalityI)

lemma loss2_hinge_unweighted:
  assumes "shape Y = shape pred" "length (data Y) = length (data pred)" "shape gpred = shape pred"
  shows "returned (loss2_hinge Y pred None gpred cache) = loss_hinge Y pred None"
proof -
  have m: "margin_inplace Y pred gpred = hinge_margin Y pred"
    using margin_inplace_eq assms by simp
  have l: "length (data (hinge_margin Y pred)) = length (data pred)"
    using assms by (simp add: hinge_margin_def arr_defs)
  have s: "shape (hinge_margin Y pred) = shape pred"
    using assms by (simp add: hinge_margin_def arr_defs)
  have "ew (\<lambda>x. x * (- 1)) (ew2 (*) (assign_all (hinge_margin Y pred) (gt0 (hinge_margin Y pred))) Y)
        = ew2 (*) (ew uminus Y) (gt0 (hinge_margin Y pred))"
    using assms l s by (intro array_eqI) (simp_all add: arr_defs)
  then show ?thesis
    by (simp add: loss2_hinge_def loss_hinge_def returned_def Let_def m)
qed

lemma loss2_hinge_weighted:
  assumes "is_matrix n k Y" "is_matrix n k pred" "shape gpred = [n, k]" "is_vector n w"
  shows "returned (loss2_hinge Y pred (Some w) gpred cache) = loss_hinge Y pred (Some w)"
proof -
  have a: "shape Y = shape pred" "length (data Y) = length (data pred)" "shape gpred = shape pred"
    and sh: "shape pred = [n, k]" "shape Y = [n, k]" and lp: "length (data pred) = n * k"
    and lw: "length (data w) = n"
    using assms by (simp_all add: is_matrix_def is_vector_def)
  have m: "margin_inplace Y pred gpred = hinge_margin Y pred"
    using margin_inplace_eq a by simp
  have l: "length (data (hinge_margin Y pred)) = n * k"
    using a lp by (simp add: hinge_margin_def arr_defs)
  have s: "shape (hinge_margin Y pred) = [n, k]"
    using a sh by (simp add: hinge_margin_def arr_defs)
  have lb: "length (data (newaxis k w)) = n * k"
    using lw by (simp add: newaxis_def length_bcast)
  have g: "ew2 (*) (ew2 (*) (assign_all (hinge_margin Y pred) (gt0 (hinge_margin Y pred))) Y)
             (ew uminus (newaxis k w))
        = ew2 (*) (ew2 (*) (ew uminus Y) (newaxis k w)) (gt0 (hinge_margin Y pred))"
    using a sh lp l s lb by (intro array_eqI) (simp_all add: ew_def ew2_def assign_all_def gt0_def)
  have "np_sum (np_dot_vm w (hinge_margin Y pred))
        = sum_list (map2 (*) (data (newaxis k w)) (data (hinge_margin Y pred)))"
    using s l lb lw
    by (simp add: np_sum_def np_dot_vm_def sum_axis0_def rows_def nrows_def ncols_def ew2_def
          newaxis_def sum_colsum)
  also have "\<dots> = np_dot (data w) (data (sum_axis1 (hinge_margin Y pred)))"
    using s l lw
    by (simp add: newaxis_def weighted_rows[OF l lw] np_dot_def sum_axis1_def rows_def
          nrows_def ncols_def)
  finally have f: "np_sum (np_dot_vm w (hinge_margin Y pred))
        = np_dot (data w) (data (sum_axis1 (hinge_margin Y pred)))" .
  show ?thesis
    using g f s sh
    by (simp add: loss2_hinge_def loss_hinge_def returned_def Let_def m ncols_def)
qed


lemma loss2_l2_weighted:
  assumes "is_matrix n k Y" "is_matrix n k pred" "shape gpred = [n, k]" "is_vector n w"
  shows "returned (loss2_l2 Y pred (Some w) gpred cache) = loss_l2 Y pred (Some w)"
proof -
  have sh: "shape pred = [n, k]" "shape Y = [n, k]" and lp: "length (data pred) = n * k"
    and ly: "length (data Y) = n * k" and lw: "length (data w) = n"
    using assms by (simp_all add: is_matrix_def is_vector_def)
  have lb: "length (data (newaxis k w)) = n * k"
    using lw by (simp add: newaxis_def length_bcast)
  have d: "ew2 (-) (assign_all gpred pred) Y = Array [n, k] (data (ew2 (-) pred Y))"
    using assms(3) by (simp add: ew2_def assign_all_def)
  have d': "ew2 (-) pred Y = Array [n, k] (data (ew2 (-) pred Y))"
    using sh by (simp add: ew2_def)
  have g: "ew2 (*) (ew2 (-) (assign_all (ew (\<lambda>x. x ^ 2) (ew2 (-) (assign_all gpred pred) Y)) pred) Y)
             (ew (\<lambda>x. 2 * x) (newaxis k w))
           = ew2 (*) (ew (\<lambda>x. 2 * x) (ew2 (-) pred Y)) (newaxis k w)"
    using sh lp ly lb assms(3)
    by (intro array_eqI) (simp_all add: ew_def ew2_def assign_all_def)
  have f: "sum_axis1 (ew (\<lambda>x. x ^ 2) (ew2 (-) (assign_all gpred pred) Y))
           = sum_axis1 (ew (\<lambda>x. x ^ 2) (ew2 (-) pred Y))"
    using sh assms(3) by (simp add: sum_axis1_def rows_def nrows_def ncols_def ew_def ew2_def assign_all_def)
  show ?thesis
    using g f sh assms(3)
    by (simp add: loss2_l2_def loss_l2_def returned_def Let_def ncols_def)
qed

lemma loss2_squared_hinge_unweighted:
  assumes "shape Y = shape pred" "length (data Y) = length (data pred)" "shape gpred = shape pred"
  shows "returned (loss2_squared_hinge Y pred None gpred cache) = loss_squared_hinge Y pred None"
proof -
  have m: "margin_inplace Y pred gpred = hinge_margin Y pred"
    using margin_inplace_eq assms by simp
  have l: "length (data (hinge_margin Y pred)) = length (data pred)"
    using assms by (simp add: hinge_margin_def arr_defs)
  have s: "shape (hinge_margin Y pred) = shape pred"
    using assms by (simp add: hinge_margin_def arr_defs)
  have "ew (\<lambda>x. x * (- 2)) (ew2 (*) (hinge_margin Y pred) Y)
        = ew2 (*) (ew (\<lambda>y. - 2 * y) Y) (hinge_margin Y pred)"
    using assms l s by (intro array_eqI) (simp_all add: ew_def ew2_def)
  then show ?thesis
    unfolding loss2_squared_hinge_def loss_squared_hinge_def returned_def Let_def m
    by (simp only: option.case sum.case prod.case)
qed

lemma dot_assoc:
  "length b = length m \<Longrightarrow>
   sum_list (map2 (*) (map2 (*) b m) m) = sum_list (map2 (*) b (map2 (*) m (m::real list)))"
proof -
  assume "length b = length m"
  then have "map2 (*) (map2 (*) b m) m = map2 (*) b (map2 (*) m m)"
    by (intro nth_equalityI) simp_all
  then show ?thesis by simp
qed

lemma dot_commute: "sum_list (map2 (*) xs ys) = sum_list (map2 (*) ys (xs::real list))"
proof -
  have "map2 (*) xs ys = map2 (*) ys xs"
    by (intro nth_equalityI) (simp_all add: mult.commute)
  then show ?thesis by simp
qed

lemma loss2_squared_hinge_weighted:
  assumes "is_matrix n k Y" "is_matrix n k pred" "shape gpred = [n, k]" "is_vector n w"
  shows "returned (loss2_squared_hinge Y pred (Some w) gpred cache)
         = loss_squared_hinge Y pred (Some w)"
proof -
  have a: "shape Y = shape pred" "length (data Y) = length (data pred)" "shape gpred = shape pred"
    and sh: "shape pred = [n, k]" "shape Y = [n, k]" and lp: "length (data pred) = n * k"
    and lw: "length (data w) = n"
    using assms by (simp_all add: is_matrix_def is_vector_def)
  have m: "margin_inplace Y pred gpred = hinge_margin Y pred"
    using margin_inplace_eq a by simp
  have l: "length (data (hinge_margin Y pred)) = n * k"
    using a lp by (simp add: hinge_margin_def arr_defs)
  have s: "shape (hinge_margin Y pred) = [n, k]"
    using a sh by (simp add: hinge_margin_def arr_defs)
  have lb: "length (data (newaxis k w)) = n * k"
    using lw by (simp add: newaxis_def length_bcast)
  have g: "ew2 (*) (ew2 (*) (hinge_margin Y pred) Y) (ew (\<lambda>x. - 2 * x) (newaxis k w))
        = ew2 (*) (ew (\<lambda>y. - 2 * y) Y) (ew2 (*) (newaxis k w) (hinge_margin Y pred))"
    using a sh lp l s lb by (intro array_eqI) (simp_all add: ew_def ew2_def)
  have l2: "length (map2 (*) (data (hinge_margin Y pred)) (data (hinge_margin Y pred))) = n * k"
    using l by simp
  have "np_dot (data (ew2 (*) (newaxis k w) (hinge_margin Y pred))) (data (hinge_margin Y pred))
        = sum_list (map2 (*) (data (newaxis k w))
            (map2 (*) (data (hinge_margin Y pred)) (data (hinge_margin Y pred))))"
    using l lb by (simp add: np_dot_def ew2_def dot_assoc del: map_map)
  also have "\<dots> = np_dot (data (inner1d (hinge_margin Y pred) (hinge_margin Y pred))) (data w)"
    using s
    by (simp add: newaxis_def weighted_rows[OF l2 lw] np_dot_def inner1d_def sum_axis1_def
          rows_def nrows_def ncols_def ew2_def dot_commute[of "data w"])
  finally have f: "np_dot (data (ew2 (*) (newaxis k w) (hinge_margin Y pred)))
                     (data (hinge_margin Y pred))
        = np_dot (data (inner1d (hinge_margin Y pred) (hinge_margin Y pred))) (data w)" .
  have nc: "ncols (ew2 (*) (hinge_margin Y pred) Y) = k" "ncols (hinge_margin Y pred) = k"
    using s by (simp_all add: ncols_def)
  show ?thesis
    unfolding loss2_squared_hinge_def loss_squared_hinge_def returned_def Let_def m
    by (simp only: option.case sum.case prod.case nc g f)
qed

lemma loss2_multiclass_logistic_same:
  assumes "shape gpred = shape pred"
  shows "returned (loss2_multiclass_logistic mexp mlog Y pred weight gpred cache)
         = loss_multiclass_logistic mexp mlog Y pred weight"
proof -
  have c: "assign_all (prepare_cache pred cache ! 0) pred = pred"
    by (cases pred) (simp add: prepare_cache_def assign_all_def np_resize_def Let_def)
  have g: "ew2 (-) (assign_all gpred prob) Y = ew2 (-) prob Y" if "shape prob = shape pred" for prob
    using assms that by (simp add: ew2_def assign_all_def)
  show ?thesis
    unfolding loss2_multiclass_logistic_def loss_multiclass_logistic_def returned_def Let_def c
    by (cases "max_axis1 pred") (simp_all add: g)
qed

text \<open>
  C1. For labels and predictions that are \<open>n\<close> by \<open>k\<close> matrices, a gradient buffer
  of that shape (whatever it holds), any cache, and a weight that is \<^verbatim>\<open>None\<close> or a
  vector of length \<open>n\<close>: the l2, hinge, squared hinge and multiclass logistic losses of
  \<^verbatim>\<open>Loss2\<close> return the same loss value and the same gradient as those of \<^verbatim>\<open>Loss\<close>
  (for the multiclass logistic loss also the same error when there is no column).
\<close>

theorem loss2_returns_what_loss_returns:
  assumes "is_matrix n k Y" and "is_matrix n k pred" and "shape gpred = [n, k]"
    and "case weight of None \<Rightarrow> True | Some w \<Rightarrow> is_vector n w"
  shows "returned (loss2_l2 Y pred weight gpred cache) = loss_l2 Y pred weight \<and>
         returned (loss2_hinge Y pred weight gpred cache) = loss_hinge Y pred weight \<and>
         returned (loss2_squared_hinge Y pred weight gpred cache)
           = loss_squared_hinge Y pred weight \<and>
         returned (loss2_multiclass_logistic mexp mlog Y pred weight gpred cache)
           = loss_multiclass_logistic mexp mlog Y pred weight"
proof (cases weight)
  case None
  have a: "shape Y = shape pred" "length (data Y) = length (data pred)"
          "shape gpred = shape pred"
    using assms by (simp_all add: is_matrix_def)
  show ?thesis
    unfolding None
    using loss2_l2_unweighted[OF a] loss2_hinge_unweighted[OF a]
          loss2_squared_hinge_unweighted[OF a] loss2_multiclass_logistic_same[OF a(3)]
    by simp
next
  case (Some w)
  then have w: "is_vector n w" using assms(4) by simp
  have a: "shape gpred = shape pred"
    using assms by (simp add: is_matrix_def)
  show ?thesis
    unfolding Some
    using loss2_l2_weighted[OF assms(1,2,3) w] loss2_hinge_weighted[OF assms(1,2,3) w]
          loss2_squared_hinge_weighted[OF assms(1,2,3) w] loss2_multiclass_logistic_same[OF a]
    by simp
qed

theorem loss2_returns_what_loss_returns_witness:
  "returned (loss2_l2 (Array [2, 2] [1, - 1, - 1, 1]) (Array [2, 2] [1 / 2, 3, - 2, 0])
              (Some (Array [2] [2, 5])) (Array [2, 2] [9, 9, 9, 9]) [])
     = loss_l2 (Array [2, 2] [1, - 1, - 1, 1]) (Array [2, 2] [1 / 2, 3, - 2, 0])
         (Some (Array [2] [2, 5])) \<and>
   returned (loss2_hinge (Array [2, 2] [1, - 1, - 1, 1]) (Array [2, 2] [1 / 2, 3, - 2, 0])
              (Some (Array [2] [2, 5])) (Array [2, 2] [9, 9, 9, 9]) [])
     = loss_hinge (Array [2, 2] [1, - 1, - 1, 1]) (Array [2, 2] [1 / 2, 3, - 2, 0])
         (Some (Array [2] [2, 5])) \<and>
   returned (loss2_squared_hinge (Array [2, 2] [1, - 1, - 1, 1])
              (Array [2, 2] [1 / 2, 3, - 2, 0])
              (Some (Array [2] [2, 5])) (Array [2, 2] [9, 9, 9, 9]) [])
     = loss_squared_hinge (Array [2, 2] [1, - 1, - 1, 1]) (Array [2, 2] [1 / 2, 3, - 2, 0])
         (Some (Array [2] [2, 5])) \<and>
   returned (loss2_multiclass_logistic exp ln (Array [2, 2] [1, - 1, - 1, 1])
              (Array [2, 2] [1 / 2, 3, - 2, 0])
              (Some (Array [2] [2, 5])) (Array [2, 2] [9, 9, 9, 9]) [])
     = loss_multiclass_logistic exp ln (Array [2, 2] [1, - 1, - 1, 1])
         (Array [2, 2] [1 / 2, 3, - 2, 0]) (Some (Array [2] [2, 5]))"
  using loss2_returns_what_loss_returns
          [where n = 2 and k = 2 and Y = "Array [2, 2] [1, - 1, - 1, 1]"
             and pred = "Array [2, 2] [1 / 2, 3, - 2, 0]"
             and weight = "Some (Array [2] [2, 5])"
             and gpred = "Array [2, 2] [9, 9, 9, 9]" and cache = "[]"
             and mexp = exp and mlog = ln]
  by (simp add: is_matrix_def is_vector_def)

section \<open>Properties of the objective\<close>

lemma obj_loss_part_keeps:
  assumes "obj_loss_part wb s = Inr (fl, w, s')"
  shows "self_gamma s' = self_gamma s \<and> self_reg s' = self_reg s \<and>
         self_K s' = self_K s \<and> self_dim s' = self_dim s \<and> self_glocal s' \<noteq> None"
  using assms
  by (auto simp: obj_loss_part_def Let_def split: sum.splits option.splits prod.splits)

lemma obj_local_nonroot:
  "obj_local False wb s =
     (case obj_loss_part wb s of Inl e \<Rightarrow> Inl e | Inr (fl, w, s') \<Rightarrow> Inr (fl, s'))"
  by (simp add: obj_local_def split: sum.splits)

lemma obj_local_nonroot_Inr:
  assumes "obj_local False wb s = Inr (fl, s')"
  shows "fl = loss_value wb s \<and> glocal_data s' = loss_grad wb s"
  using assms
  by (auto simp: obj_local_def loss_value_def loss_grad_def split: sum.splits)

lemma obj_local_root_Inr:
  assumes "obj_local True wb s = Inr (fl, s')"
  shows "fl = loss_value wb s + self_gamma s * fst (self_reg s (weight_matrix wb s)) \<and>
         glocal_data s' =
           map2 (+) (take (self_K s * self_dim s) (loss_grad wb s))
                    (map (\<lambda>x. self_gamma s * x) (data (snd (self_reg s (weight_matrix wb s)))))
           @ drop (self_K s * self_dim s) (loss_grad wb s)"
proof -
  from assms obtain f0 w s0 where p: "obj_loss_part wb s = Inr (f0, w, s0)"
    and r: "add_reg f0 w s0 = Inr (fl, s')"
    by (auto simp: obj_local_def split: sum.splits)
  note k = obj_loss_part_keeps[OF p]
  from k obtain gl where gl: "self_glocal s0 = Some gl" by auto
  show ?thesis
    using r k gl
    by (auto simp: add_reg_def Let_def loss_value_def loss_grad_def weight_matrix_def p
          glocal_data_def split: prod.splits)
qed


lemma nonroot_ranks:
  "0 < a \<Longrightarrow>
   map (\<lambda>(rank, solver). obj_local (mpi_is_root rank) wb solver) (zip [a..<a + length xs] xs)
   = map (obj_local False wb) xs"
proof (induction xs arbitrary: a)
  case Nil
  then show ?case by simp
next
  case (Cons x xs)
  have u: "[a..<a + length (x # xs)] = a # [Suc a..<Suc a + length xs]"
    by (subst upt_rec) simp
  show ?case
    unfolding u using Cons.IH[of "Suc a"] Cons.prems
    by (simp add: mpi_is_root_def)
qed

lemma root_first:
  "map (\<lambda>(rank, solver). obj_local (mpi_is_root rank) wb solver)
       (zip [0..<length (r # others)] (r # others))
   = obj_local True wb r # map (obj_local False wb) others"
proof -
  have u: "[0..<length (r # others)] = 0 # [Suc 0..<Suc 0 + length others]"
    by (subst upt_rec) simp
  show ?thesis
    unfolding u using nonroot_ranks[of "Suc 0" wb others]
    by (simp add: mpi_is_root_def)
qed

lemma collect_Inr: "collect rs = Inr xs \<Longrightarrow> rs = map Inr xs"
  by (induction rs arbitrary: xs) (auto split: sum.splits)

lemma nonroot_locals:
  "map (obj_local False wb) others = map Inr locs \<Longrightarrow>
   map fst locs = map (loss_value wb) others \<and>
   map (\<lambda>(flocal, solver). glocal_data solver) locs = map (loss_grad wb) others"
proof (induction others arbitrary: locs)
  case Nil
  then show ?case by simp
next
  case (Cons s others)
  then obtain l locs' where locs: "locs = l # locs'" by (cases locs) auto
  obtain fl s' where l: "l = (fl, s')" by (cases l)
  have h: "obj_local False wb s = Inr (fl, s')"
    and t: "map (obj_local False wb) others = map Inr locs'"
    using Cons.prems by (simp_all add: locs l)
  show ?case
    using Cons.IH[OF t] obj_local_nonroot_Inr[OF h] by (simp add: locs l)
qed

lemma Allreduce_nth:
  "(\<forall>x \<in> set bs. length x = L) \<Longrightarrow> length b = L \<Longrightarrow> j < L \<Longrightarrow>
   fold (\<lambda>x acc. map2 (+) acc x) bs b ! j = b ! j + (\<Sum>x\<leftarrow>bs. (x ! j :: real))"
proof (induction bs arbitrary: b)
  case Nil
  then show ?case by simp
next
  case (Cons x bs)
  have l: "length (map2 (+) b x) = L" using Cons.prems by simp
  have "fold (\<lambda>x acc. map2 (+) acc x) bs (map2 (+) b x) ! j
        = map2 (+) b x ! j + (\<Sum>x\<leftarrow>bs. x ! j)"
    using Cons.IH[OF _ l] Cons.prems by simp
  then show ?case using Cons.prems by simp
qed

lemma root_glocal_nth:
  assumes "length lg = L" "length greg = KD" "KD \<le> L" "j < L"
  shows "(map2 (+) (take KD lg) (map (\<lambda>x. gam * x) greg) @ drop KD lg) ! j
         = lg ! j + (if j < KD then gam * greg ! j else (0::real))"
    and "length (map2 (+) (take KD lg) (map (\<lambda>x. gam * x) greg) @ drop KD lg) = L"
  using assms by (auto simp: nth_append)

lemma obj_global:
  assumes o: "obj wb (coord # others) = Inr (f, g, ss')"
  shows "f = (\<Sum>s\<leftarrow>coord # others. loss_value wb s)
             + self_gamma coord * fst (self_reg coord (weight_matrix wb coord))"
    and "(\<forall>s \<in> set (coord # others). length (loss_grad wb s) = L) \<Longrightarrow>
         length (data (snd (self_reg coord (weight_matrix wb coord)))) = self_K coord * self_dim coord \<Longrightarrow>
         self_K coord * self_dim coord \<le> L \<Longrightarrow> j < L \<Longrightarrow>
         g ! j = (\<Sum>s\<leftarrow>coord # others. loss_grad wb s ! j)
                 + (if j < self_K coord * self_dim coord
                    then self_gamma coord * data (snd (self_reg coord (weight_matrix wb coord))) ! j
                    else 0)"
proof -
  from o obtain locals where
    c: "collect (map (\<lambda>(rank, solver). obj_local (mpi_is_root rank) wb solver)
                     (zip [0..<length (coord # others)] (coord # others))) = Inr locals"
    and f: "f = sum_list (map fst locals)"
    and g: "g = Allreduce (map (\<lambda>(flocal, solver). glocal_data solver) locals)"
    by (auto simp: obj_def Let_def split: sum.splits)
  have m: "obj_local True wb coord # map (obj_local False wb) others = map Inr locals"
    using collect_Inr[OF c] by (simp only: root_first)
  then obtain l0 locs where locals: "locals = l0 # locs" by (cases locals) auto
  obtain f0 s0 where l0: "l0 = (f0, s0)" by (cases l0)
  have r: "obj_local True wb coord = Inr (f0, s0)"
    and t: "map (obj_local False wb) others = map Inr locs"
    using m by (simp_all add: locals l0)
  note R = obj_local_root_Inr[OF r]
  note N = nonroot_locals[OF t]
  show "f = (\<Sum>s\<leftarrow>coord # others. loss_value wb s)
             + self_gamma coord * fst (self_reg coord (weight_matrix wb coord))"
    using R N by (simp add: f locals l0)
  assume len: "\<forall>s \<in> set (coord # others). length (loss_grad wb s) = L"
    and lr: "length (data (snd (self_reg coord (weight_matrix wb coord)))) = self_K coord * self_dim coord"
    and kd: "self_K coord * self_dim coord \<le> L" and j: "j < L"
  have lroot: "length (loss_grad wb coord) = L" using len by simp
  have lo: "\<forall>x \<in> set (map (loss_grad wb) others). length x = L" using len by simp
  have g': "g = fold (\<lambda>x acc. map2 (+) acc x) (map (loss_grad wb) others) (glocal_data s0)"
    using N by (simp add: g locals l0 Allreduce_def)
  have s0: "glocal_data s0 ! j = loss_grad wb coord ! j
              + (if j < self_K coord * self_dim coord
                 then self_gamma coord * data (snd (self_reg coord (weight_matrix wb coord))) ! j
                 else 0)"
    and ls0: "length (glocal_data s0) = L"
    using root_glocal_nth[OF lroot lr kd j] R by simp_all
  have "g ! j = glocal_data s0 ! j + (\<Sum>x\<leftarrow>map (loss_grad wb) others. x ! j)"
    unfolding g' by (rule Allreduce_nth[OF lo ls0 j])
  then show "g ! j = (\<Sum>s\<leftarrow>coord # others. loss_grad wb s ! j)
                 + (if j < self_K coord * self_dim coord
                    then self_gamma coord * data (snd (self_reg coord (weight_matrix wb coord))) ! j
                    else 0)"
    using s0 by (simp add: comp_def)
qed

lemma call_loss_ignores_reg:
  "call_loss (solver\<lparr>self_gamma := gam, self_reg := r\<rparr>) pred = call_loss solver pred"
  by (simp add: call_loss_def split: lossfn.splits option.splits sum.splits prod.splits)

lemma obj_loss_part_ignores_reg:
  "obj_loss_part wb (solver\<lparr>self_gamma := gam, self_reg := r\<rparr>) =
     (case obj_loss_part wb solver of
        Inl e \<Rightarrow> Inl e
      | Inr (flocal, w, solver') \<Rightarrow> Inr (flocal, w, solver'\<lparr>self_gamma := gam, self_reg := r\<rparr>))"
proof -
  have c: "\<And>p. call_loss (solver\<lparr>self_gamma := gam, self_reg := r, self_pred := Some p\<rparr>) p
             = call_loss (solver\<lparr>self_pred := Some p\<rparr>) p"
    by (simp add: call_loss_def split: lossfn.splits option.splits sum.splits prod.splits)
  show ?thesis
    by (simp add: obj_loss_part_def Let_def c split: sum.splits option.splits prod.splits)
qed

lemma loss_terms_ignore_reg:
  "loss_value wb (solver\<lparr>self_gamma := gam, self_reg := r\<rparr>) = loss_value wb solver"
  "loss_grad wb (solver\<lparr>self_gamma := gam, self_reg := r\<rparr>) = loss_grad wb solver"
  by (simp_all add: loss_value_def loss_grad_def obj_loss_part_ignores_reg glocal_data_def
        split: sum.splits prod.splits)

lemmas eval_defs = obj_def obj_local_def obj_loss_part_def add_reg_def call_loss_def
  SolverMC_init_def np_reshape_def slice_to_def slice_from_def np_matmul_def np_transpose_def
  add_rowvec_def nrows_def ncols_def ew_def ew2_def loss_hinge_def hinge_margin_def gt0_def
  np_sum_def sum_axis0_def rows_def reg_l2_def np_dot_def Allreduce_def glocal_data_def
  mpi_is_root_def Let_def

lemma worker0_loss_part:
  "obj_loss_part (Array [2] [1 / 4, 0]) worker0 =
     Inr (1 / 4, Array [1, 1] [1 / 4],
          worker0\<lparr>self_pred := Some (Array [1, 1] [1 / 2]),
             self_glocal := Some (Array [2] [- 1, - (1 / 2)])\<rparr>)"
  by (simp add: worker0_def eval_defs)

lemma worker1_loss_part:
  "obj_loss_part (Array [2] [1 / 4, 0]) worker1 =
     Inr (0, Array [1, 1] [1 / 4],
          worker1\<lparr>self_pred := Some (Array [1, 1] [- 1]),
             self_glocal := Some (Array [2] [0, 0])\<rparr>)"
  by (simp add: worker1_def eval_defs)

lemma two_workers_obj: "\<exists>ss'. obj (Array [2] [1 / 4, 0]) [worker0, worker1] = Inr (9 / 32, [- 3 / 4, - 1 / 2], ss')"
  apply (simp add: obj_def obj_local_def worker0_loss_part worker1_loss_part mpi_is_root_def)
  apply (simp add: add_reg_def worker0_def worker1_def SolverMC_init_def reg_l2_def np_dot_def Let_def
     Allreduce_def glocal_data_def ew_def)
  done

text \<open>
  C2. On a worker that is not the coordinator, the local value and the local gradient of
  \<^verbatim>\<open>obj\<close> before the reduction are the data terms alone, and these do not depend on
  \<open>gamma\<close> or on the regularizer. On the coordinator \<open>gamma * Reg(w)\<close> is added to
  the value, and \<open>gamma\<close> times the gradient of the regularizer to the first
  \<open>K * dim\<close> entries of the gradient. After the sum-reduction over any number of
  workers, the objective is the sum of the data terms plus \<open>gamma * Reg(w)\<close> once, and
  likewise each entry of the gradient (for local gradients of one length \<open>L\<close>).
\<close>

theorem regularizer_added_once:
  "(obj_local False wb solver = Inr (flocal, solver') \<longrightarrow>
      flocal = loss_value wb solver \<and> glocal_data solver' = loss_grad wb solver) \<and>
   (obj_local True wb solver = Inr (flocal, solver') \<longrightarrow>
      flocal = loss_value wb solver
               + self_gamma solver * fst (self_reg solver (weight_matrix wb solver)) \<and>
      glocal_data solver' =
        map2 (+) (take (self_K solver * self_dim solver) (loss_grad wb solver))
                 (map (\<lambda>x. self_gamma solver * x)
                      (data (snd (self_reg solver (weight_matrix wb solver)))))
        @ drop (self_K solver * self_dim solver) (loss_grad wb solver)) \<and>
   loss_value wb (solver\<lparr>self_gamma := gam, self_reg := r\<rparr>) = loss_value wb solver \<and>
   loss_grad wb (solver\<lparr>self_gamma := gam, self_reg := r\<rparr>) = loss_grad wb solver \<and>
   (obj wb (coord # others) = Inr (f, g, solvers') \<longrightarrow>
      f = (\<Sum>s\<leftarrow>coord # others. loss_value wb s)
          + self_gamma coord * fst (self_reg coord (weight_matrix wb coord)) \<and>
      ((\<forall>s \<in> set (coord # others). length (loss_grad wb s) = L) \<and>
       length (data (snd (self_reg coord (weight_matrix wb coord))))
         = self_K coord * self_dim coord \<and>
       self_K coord * self_dim coord \<le> L \<longrightarrow>
         (\<forall>j < L. g ! j = (\<Sum>s\<leftarrow>coord # others. loss_grad wb s ! j)
                 + (if j < self_K coord * self_dim coord
                    then self_gamma coord
                         * data (snd (self_reg coord (weight_matrix wb coord))) ! j
                    else 0))))"
proof (intro conjI impI allI)
  assume "obj_local False wb solver = Inr (flocal, solver')"
  then show "flocal = loss_value wb solver" "glocal_data solver' = loss_grad wb solver"
    using obj_local_nonroot_Inr by blast+
next
  assume "obj_local True wb solver = Inr (flocal, solver')"
  then show "flocal = loss_value wb solver
               + self_gamma solver * fst (self_reg solver (weight_matrix wb solver))"
    "glocal_data solver' =
        map2 (+) (take (self_K solver * self_dim solver) (loss_grad wb solver))
                 (map (\<lambda>x. self_gamma solver * x)
                      (data (snd (self_reg solver (weight_matrix wb solver)))))
        @ drop (self_K solver * self_dim solver) (loss_grad wb solver)"
    using obj_local_root_Inr by blast+
next
  show "loss_value wb (solver\<lparr>self_gamma := gam, self_reg := r\<rparr>) = loss_value wb solver"
    "loss_grad wb (solver\<lparr>self_gamma := gam, self_reg := r\<rparr>) = loss_grad wb solver"
    by (rule loss_terms_ignore_reg)+
next
  assume o: "obj wb (coord # others) = Inr (f, g, solvers')"
  show "f = (\<Sum>s\<leftarrow>coord # others. loss_value wb s)
          + self_gamma coord * fst (self_reg coord (weight_matrix wb coord))"
    by (rule obj_global(1)[OF o])
  fix j
  assume "(\<forall>s \<in> set (coord # others). length (loss_grad wb s) = L) \<and>
       length (data (snd (self_reg coord (weight_matrix wb coord))))
         = self_K coord * self_dim coord \<and>
       self_K coord * self_dim coord \<le> L" and "j < L"
  then show "g ! j = (\<Sum>s\<leftarrow>coord # others. loss_grad wb s ! j)
                 + (if j < self_K coord * self_dim coord
                    then self_gamma coord
                         * data (snd (self_reg coord (weight_matrix wb coord))) ! j
                    else 0)"
    using obj_global(2)[OF o, of L j] by blast
qed

theorem regularizer_added_once_witness:
  "\<exists>solvers'.
     obj (Array [2] [1 / 4, 0]) [worker0, worker1] = Inr (9 / 32, [- 3 / 4, - 1 / 2], solvers') \<and>
     9 / 32 = loss_value (Array [2] [1 / 4, 0]) worker0
              + loss_value (Array [2] [1 / 4, 0]) worker1
              + self_gamma worker0
                * fst (self_reg worker0 (weight_matrix (Array [2] [1 / 4, 0]) worker0))"
proof -
  obtain solvers' where
    h: "obj (Array [2] [1 / 4, 0]) [worker0, worker1] = Inr (9 / 32, [- 3 / 4, - 1 / 2], solvers')"
    using two_workers_obj by blast
  note t = regularizer_added_once
      [where wb = "Array [2] [1 / 4, 0]" and coord = worker0 and others = "[worker1]"
         and f = "9 / 32" and g = "[- 3 / 4, - 1 / 2]" and solvers' = solvers']
  have "9 / 32 = (\<Sum>s\<leftarrow>[worker0, worker1]. loss_value (Array [2] [1 / 4, 0]) s)
              + self_gamma worker0
                * fst (self_reg worker0 (weight_matrix (Array [2] [1 / 4, 0]) worker0))"
    using t h by blast
  then show ?thesis using h by auto
qed

end
